theory Spec2Isabelle
  imports Complex_Main
begin

section \<open>JavaScript values used by the calculator\<close>

text \<open>
  The repository holds two implementations of the same matchup calculation:
  \<^verbatim>\<open>graphql_server.js\<close> (the GraphQL resolvers) and \<^verbatim>\<open>cli_calc.js\<close> (the command line
  function). Both are embedded here. A third file holds an earlier command line function
  for one direction; its formatter is the one of the other two, as a local function, and
  it has no trainer sets. The damage engine (\<^verbatim>\<open>@smogon/calc\<close>) and the set data
  files are not part of the repository and are parameters of the model.

  A thrown value is an \<^verbatim>\<open>Error\<close> or a \<^verbatim>\<open>SyntaxError\<close> object with its message. A function that
  may throw returns \<open>js_error + 'a\<close>, with \<open>Inl\<close> for the thrown value.
\<close>

datatype js_error = Error (message: string) | SyntaxError (message: string)

text \<open>
  A string is a list of code units; a \<^typ>\<open>char\<close> stands for a UTF-16 code unit below 256.
  Numbers that the code only reads as integers are \<^typ>\<open>int\<close>. An optional property is an
  \<open>option\<close>: \<open>None\<close> stands for \<^verbatim>\<open>undefined\<close> and \<^verbatim>\<open>null\<close>, which the code never tells apart.
\<close>

fun show_nat :: "nat \<Rightarrow> string" where
  "show_nat n =
     (if n < 10 then [''0123456789'' ! n]
      else show_nat (n div 10) @ [''0123456789'' ! (n mod 10)])"

definition show_int :: "int \<Rightarrow> string" where
  "show_int i = (if i < 0 then ''-'' @ show_nat (nat (- i)) else show_nat (nat i))"

text \<open>Truthiness and the \<^verbatim>\<open>a || b\<close> operator at the types the code uses it.\<close>

definition truthy_int :: "int option \<Rightarrow> bool" where
  "truthy_int v = (case v of None \<Rightarrow> False | Some n \<Rightarrow> n \<noteq> 0)"

definition truthy_str :: "string option \<Rightarrow> bool" where
  "truthy_str v = (case v of None \<Rightarrow> False | Some s \<Rightarrow> s \<noteq> [])"

definition or_int :: "int option \<Rightarrow> int \<Rightarrow> int" where
  "or_int v d = (case v of None \<Rightarrow> d | Some n \<Rightarrow> if n \<noteq> 0 then n else d)"

definition or_str :: "string option \<Rightarrow> string \<Rightarrow> string" where
  "or_str v d = (case v of None \<Rightarrow> d | Some s \<Rightarrow> if s \<noteq> [] then s else d)"

definition or_str_opt :: "string option \<Rightarrow> string option \<Rightarrow> string option" where
  "or_str_opt v d = (case v of None \<Rightarrow> d | Some s \<Rightarrow> if s \<noteq> [] then Some s else d)"

definition or_bool :: "bool option \<Rightarrow> bool \<Rightarrow> bool" where
  "or_bool v d = (case v of None \<Rightarrow> d | Some b \<Rightarrow> if b then True else d)"

text \<open>Arrays and objects are always truthy, so only an absent one gives way to the default.\<close>

definition or_obj :: "'a option \<Rightarrow> 'a \<Rightarrow> 'a" where
  "or_obj v d = (case v of None \<Rightarrow> d | Some x \<Rightarrow> x)"

subsection \<open>The regular expressions the resolver builds\<close>

text \<open>
  \<^verbatim>\<open>new RegExp(`\\b${trainerName}\\b`, "i")\<close> hands the trainer name to the regular expression
  constructor as pattern source. The model covers, following ECMAScript (without the
  \<^verbatim>\<open>u\<close> flag), the patterns made of word boundary assertions, plain characters and
  escaped punctuation, and the syntax errors of unbalanced groups and classes. Every other
  pattern is left to a parameter \<open>host\<close>, the regular expression engine of the runtime.
\<close>

definition backslash :: char where
  "backslash = CHR 0x5C"

definition word_char :: "char \<Rightarrow> bool" where
  "word_char c \<longleftrightarrow>
     c \<in> set ''abcdefghijklmnopqrstuvwxyzABCDEFGHIJKLMNOPQRSTUVWXYZ0123456789_''"

definition lower_case :: string where
  "lower_case = ''abcdefghijklmnopqrstuvwxyz'' @
     [CHR 0xE0, CHR 0xE1, CHR 0xE2, CHR 0xE3, CHR 0xE4, CHR 0xE5, CHR 0xE6, CHR 0xE7,
      CHR 0xE8, CHR 0xE9, CHR 0xEA, CHR 0xEB, CHR 0xEC, CHR 0xED, CHR 0xEE, CHR 0xEF,
      CHR 0xF0, CHR 0xF1, CHR 0xF2, CHR 0xF3, CHR 0xF4, CHR 0xF5, CHR 0xF6,
      CHR 0xF8, CHR 0xF9, CHR 0xFA, CHR 0xFB, CHR 0xFC, CHR 0xFD, CHR 0xFE]"

definition upper_case :: string where
  "upper_case = ''ABCDEFGHIJKLMNOPQRSTUVWXYZ'' @
     [CHR 0xC0, CHR 0xC1, CHR 0xC2, CHR 0xC3, CHR 0xC4, CHR 0xC5, CHR 0xC6, CHR 0xC7,
      CHR 0xC8, CHR 0xC9, CHR 0xCA, CHR 0xCB, CHR 0xCC, CHR 0xCD, CHR 0xCE, CHR 0xCF,
      CHR 0xD0, CHR 0xD1, CHR 0xD2, CHR 0xD3, CHR 0xD4, CHR 0xD5, CHR 0xD6,
      CHR 0xD8, CHR 0xD9, CHR 0xDA, CHR 0xDB, CHR 0xDC, CHR 0xDD, CHR 0xDE]"

text \<open>
  With the \<^verbatim>\<open>i\<close> flag two code units match when their canonical forms are equal; the
  canonical form is the upper case code unit where that is a single code unit.
\<close>

definition canonicalize :: "char \<Rightarrow> char" where
  "canonicalize c = (case map_of (zip lower_case upper_case) c of Some u \<Rightarrow> u | None \<Rightarrow> c)"

definition syntax_character :: "char \<Rightarrow> bool" where
  "syntax_character c \<longleftrightarrow> c \<in> set ''^$.*+?()[]{}|'' \<or> c = backslash"

text \<open>The punctuation that \<^verbatim>\<open>getTrainerPokemonSets\<close> escapes; escaped, each matches itself.\<close>

definition identity_escape :: "char \<Rightarrow> bool" where
  "identity_escape c \<longleftrightarrow> c \<in> set ''-/^$*+?.()|[]{}'' \<or> c = backslash"

datatype pattern_term = WordBoundary | PatternChar char

fun parse_pattern :: "string \<Rightarrow> pattern_term list option" where
  "parse_pattern [] = Some []"
| "parse_pattern [c] = (if syntax_character c then None else Some [PatternChar c])"
| "parse_pattern (c # d # cs) =
     (if c = backslash then
        (if d = CHR ''b'' then map_option (Cons WordBoundary) (parse_pattern cs)
         else if identity_escape d then map_option (Cons (PatternChar d)) (parse_pattern cs)
         else None)
      else if syntax_character c then None
      else map_option (Cons (PatternChar c)) (parse_pattern (d # cs)))"

text \<open>
  Position \<open>i\<close> of \<open>s\<close> is a word boundary when exactly one of the code units before and
  after it is a word character; outside the string there is none.
\<close>

definition is_word_boundary :: "string \<Rightarrow> nat \<Rightarrow> bool" where
  "is_word_boundary s i \<longleftrightarrow>
     (0 < i \<and> i \<le> length s \<and> word_char (s ! (i - 1))) \<noteq> (i < length s \<and> word_char (s ! i))"

fun matches_at :: "pattern_term list \<Rightarrow> string \<Rightarrow> nat \<Rightarrow> bool" where
  "matches_at [] s i = True"
| "matches_at (WordBoundary # ts) s i = (is_word_boundary s i \<and> matches_at ts s i)"
| "matches_at (PatternChar c # ts) s i =
     (i < length s \<and> canonicalize (s ! i) = canonicalize c \<and> matches_at ts s (Suc i))"

text \<open>\<^verbatim>\<open>regex.test(s)\<close>: the pattern matches at some position of \<open>s\<close>.\<close>

definition regexp_test :: "pattern_term list \<Rightarrow> string \<Rightarrow> bool" where
  "regexp_test ts s = list_ex (matches_at ts s) [0..<Suc (length s)]"

text \<open>
  The syntax errors of a pattern whose groups or classes are not closed. The scan
  skips an escaped character, reads parentheses inside a class as plain characters,
  and counts the open groups.
\<close>

fun group_error :: "string \<Rightarrow> bool \<Rightarrow> bool \<Rightarrow> nat \<Rightarrow> string option" where
  "group_error [] escaped in_class depth =
     (if escaped then Some (backslash # '' at end of pattern'')
      else if in_class then Some ''Unterminated character class''
      else if 0 < depth then Some ''Unterminated group''
      else None)"
| "group_error (c # cs) escaped in_class depth =
     (if escaped then group_error cs False in_class depth
      else if c = backslash then group_error cs True in_class depth
      else if in_class then group_error cs False (c \<noteq> CHR '']'') depth
      else if c = CHR ''['' then group_error cs False True depth
      else if c = CHR ''('' then group_error cs False False (Suc depth)
      else if c = CHR '')'' then
        (if depth = 0 then Some (''Unmatched '' @ [CHR 0x27, CHR '')'', CHR 0x27]) else group_error cs False False (depth - 1))
      else group_error cs False False depth)"

text \<open>A compiled regular expression is represented by its \<^verbatim>\<open>test\<close> method.\<close>

type_synonym regexp = "string \<Rightarrow> bool"

type_synonym regexp_host = "string \<Rightarrow> js_error + regexp"

definition RegExp_i :: "regexp_host \<Rightarrow> string \<Rightarrow> js_error + regexp" where
  "RegExp_i host p =
     (case group_error p False False 0 of
        Some m \<Rightarrow> Inl (SyntaxError (''Invalid regular expression: /'' @ p @ ''/i: '' @ m))
      | None \<Rightarrow>
          (case parse_pattern p of
             Some ts \<Rightarrow> Inr (regexp_test ts)
           | None \<Rightarrow> host p))"

definition word_pattern :: "string \<Rightarrow> string" where
  "word_pattern trainerName = [backslash, CHR ''b''] @ trainerName @ [backslash, CHR ''b'']"

text \<open>\<^verbatim>\<open>trainerName.replace(/[-\/\\^$*+?.()|[\]{}]/g, "\\$&")\<close>\<close>

definition escape_regexp :: "string \<Rightarrow> string" where
  "escape_regexp trainerName =
     concat (map (\<lambda>c. if identity_escape c then [backslash, c] else [c]) trainerName)"

text \<open>\<^verbatim>\<open>s.split(" ")[0]\<close>: the part of \<open>s\<close> before its first space.\<close>

definition first_word :: "string \<Rightarrow> string" where
  "first_word s = takeWhile (\<lambda>c. c \<noteq> CHR '' '') s"

section \<open>Set data and combatant configuration\<close>

datatype stat = HP | ATK | DEF | SPA | SPD | SPE

text \<open>
  An object of stats is a map from the stats it has as own properties. Object spread
  \<^verbatim>\<open>{...a, ...b}\<close> keeps the properties of \<^verbatim>\<open>a\<close> that \<^verbatim>\<open>b\<close> lacks and takes all of \<^verbatim>\<open>b\<close>;
  spreading an absent object adds nothing.
\<close>

type_synonym stats = "stat \<rightharpoonup> int"

definition spread :: "('k \<rightharpoonup> 'v) \<Rightarrow> ('k \<rightharpoonup> 'v) option \<Rightarrow> ('k \<rightharpoonup> 'v)" where
  "spread a b = (case b of None \<Rightarrow> a | Some m \<Rightarrow> a ++ m)"

definition defaultIVs :: stats where
  "defaultIVs = (\<lambda>s. Some 31)"

definition defaultEVs :: stats where
  "defaultEVs = (\<lambda>s. Some 0)"

text \<open>A set of the set data (\<^verbatim>\<open>currentSet\<close>, \<^verbatim>\<open>trainerSet\<close>): every property is optional.\<close>

record preset =
  set_level :: "int option"
  set_ability :: "string option"
  set_item :: "string option"
  set_nature :: "string option"
  set_ivs :: "stats option"
  set_evs :: "stats option"
  set_moves :: "string list option"
  set_trainer :: "string option"

text \<open>
  \<^verbatim>\<open>speciesSets\<close> and \<^verbatim>\<open>setdex\<close> are objects read in the order \<^verbatim>\<open>for ... in\<close> enumerates
  their own properties, so each is the list of its properties in that order; a property
  is looked up by its name. The properties that an object inherits from its prototype
  (\<^verbatim>\<open>constructor\<close> and the like) are left out. \<^verbatim>\<open>SETDEX_BY_GEN\<close> is a parameter of the
  functions below.
\<close>

type_synonym speciesSets = "(string \<times> preset) list"

type_synonym setdex = "(string \<times> speciesSets) list"

record trainerPokemon =
  tp_speciesName :: string
  tp_trainerName :: string

text \<open>
  \<^verbatim>\<open>rawPokemonConfig\<close>, the input of one side. The code reads it with \<^verbatim>\<open>?.\<close>, so an absent
  configuration behaves as the one with no property.
\<close>

record rawPokemonConfig =
  raw_name :: "string option"
  raw_level :: "int option"
  raw_ability :: "string option"
  raw_item :: "string option"
  raw_nature :: "string option"
  raw_ivs :: "stats option"
  raw_evs :: "stats option"
  raw_boosts :: "stats option"
  raw_curHP :: "int option"
  raw_status :: "string option"
  raw_isDynamaxed :: "bool option"
  raw_moves :: "string list option"
  raw_trainerPokemon :: "trainerPokemon option"

record pokemonOptions =
  opt_name :: "string option"
  opt_level :: int
  opt_ability :: "string option"
  opt_item :: "string option"
  opt_nature :: string
  opt_ivs :: stats
  opt_evs :: stats
  opt_boosts :: stats
  opt_curHP :: "int option"
  opt_status :: string
  opt_isDynamaxed :: bool
  opt_moves :: "string list"

subsection \<open>Error messages\<close>

definition quoted :: "string \<Rightarrow> string" where
  "quoted s = [CHR 0x27] @ s @ [CHR 0x27]"

definition Pokemon_word :: string where
  "Pokemon_word = ''Pok'' @ [CHR 0xE9] @ ''mon''"

definition msg_no_setdex :: "int \<Rightarrow> string" where
  "msg_no_setdex genNum =
     Pokemon_word @ '' set data not found for Generation '' @ show_int genNum @
     ''. Please ensure the data files (e.g., gen8.js) are correctly loaded.''"

definition msg_no_setdex_cli :: "int \<Rightarrow> string" where
  "msg_no_setdex_cli genNum =
     Pokemon_word @ '' set data not found for Generation '' @ show_int genNum @
     ''. Please ensure the data files (e.g., gen8.js) correctly export their SETDEX_GENX variable.''"

definition msg_no_species :: "string \<Rightarrow> int \<Rightarrow> string" where
  "msg_no_species speciesName genNum =
     Pokemon_word @ '' species '' @ quoted speciesName @ '' not found in sets for Generation '' @
     show_int genNum @ ''.''"

definition msg_no_trainer :: "string \<Rightarrow> string \<Rightarrow> int \<Rightarrow> string" where
  "msg_no_trainer trainerName speciesName genNum =
     ''Trainer '' @ quoted trainerName @ '' with '' @ Pokemon_word @ '' '' @ quoted speciesName @
     '' not found in sets for Generation '' @ show_int genNum @ ''.''"

definition msg_no_name :: string where
  "msg_no_name =
     Pokemon_word @ '' name is required. Please specify '' @ quoted ''name'' @ '' or '' @
     quoted ''trainerPokemon.speciesName'' @ ''.''"

section \<open>Resolving a trainer's set\<close>

text \<open>
  The loop over \<^verbatim>\<open>speciesSets\<close> (\<^verbatim>\<open>graphql_server.js\<close> lines 119 to 135, \<^verbatim>\<open>cli_calc.js\<close> lines
  115 to 137, the same statements). The fourth argument is the variable \<^verbatim>\<open>trainerSet\<close>.
  The regular expression is built anew in every round, before anything else is tested.
\<close>

definition test_trainer :: "regexp \<Rightarrow> preset \<Rightarrow> bool" where
  "test_trainer trainerNameRegex currentSet =
     (case set_trainer currentSet of
        None \<Rightarrow> False
      | Some t \<Rightarrow> t \<noteq> [] \<and> trainerNameRegex t)"

fun scan_sets ::
  "regexp_host \<Rightarrow> string \<Rightarrow> speciesSets \<Rightarrow> preset option \<Rightarrow> js_error + preset option" where
  "scan_sets host trainerName [] trainerSet = Inr trainerSet"
| "scan_sets host trainerName ((setName, currentSet) # rest) trainerSet =
     (case RegExp_i host (word_pattern trainerName) of
        Inl e \<Rightarrow> Inl e
      | Inr trainerNameRegex \<Rightarrow>
          if trainerNameRegex setName \<or> test_trainer trainerNameRegex currentSet
          then Inr (Some currentSet)
          else scan_sets host trainerName rest
                 (case trainerSet of
                    None \<Rightarrow>
                      if first_word setName = first_word trainerName then Some currentSet
                      else None
                  | Some t \<Rightarrow> Some t))"

text \<open>
  \<open>resolveOne\<close> is the part of \<^verbatim>\<open>getPokemonOptions\<close> that finds the set: the lookups of the
  generation and the species, the loop, the lookup of the trainer name as a set name,
  and the three errors. The two files differ in the text of the first error only, which
  is the argument \<open>no_setdex\<close>.
\<close>

definition resolveOne ::
  "regexp_host \<Rightarrow> (int \<Rightarrow> setdex option) \<Rightarrow> (int \<Rightarrow> string) \<Rightarrow> int \<Rightarrow> string \<Rightarrow> string
     \<Rightarrow> js_error + preset" where
  "resolveOne host SETDEX_BY_GEN no_setdex genNum speciesName trainerName =
     (case SETDEX_BY_GEN genNum of
        None \<Rightarrow> Inl (Error (no_setdex genNum))
      | Some setdex \<Rightarrow>
          (case map_of setdex speciesName of
             None \<Rightarrow> Inl (Error (msg_no_species speciesName genNum))
           | Some speciesSets \<Rightarrow>
               (case scan_sets host trainerName speciesSets None of
                  Inl e \<Rightarrow> Inl e
                | Inr found \<Rightarrow>
                    (case (case found of
                             None \<Rightarrow> map_of speciesSets trainerName
                           | Some t \<Rightarrow> Some t) of
                       None \<Rightarrow> Inl (Error (msg_no_trainer trainerName speciesName genNum))
                     | Some trainerSet \<Rightarrow> Inr trainerSet))))"

section \<open>Merging the configuration\<close>

text \<open>
  The object literal that both files build first (the defaults and the explicit values).
  \<^verbatim>\<open>cli_calc.js\<close> receives the two default objects as arguments, with the values that
  \<^verbatim>\<open>graphql_server.js\<close> has as constants.
\<close>

definition base_options :: "rawPokemonConfig \<Rightarrow> pokemonOptions" where
  "base_options raw =
     \<lparr> opt_name = raw_name raw,
       opt_level = or_int (raw_level raw) 100,
       opt_ability = raw_ability raw,
       opt_item = raw_item raw,
       opt_nature = or_str (raw_nature raw) ''Serious'',
       opt_ivs = spread defaultIVs (raw_ivs raw),
       opt_evs = spread defaultEVs (raw_evs raw),
       opt_boosts = or_obj (raw_boosts raw) Map.empty,
       opt_curHP = raw_curHP raw,
       opt_status = or_str (raw_status raw) [],
       opt_isDynamaxed = or_bool (raw_isDynamaxed raw) False,
       opt_moves = or_obj (raw_moves raw) [] \<rparr>"

text \<open>
  The assignments after a set is found. Both files end with assignments of
  \<^verbatim>\<open>boosts\<close>, \<^verbatim>\<open>curHP\<close>, \<^verbatim>\<open>status\<close> and \<^verbatim>\<open>isDynamaxed\<close> to themselves, which change nothing.
  First \<^verbatim>\<open>graphql_server.js\<close>, lines 148 to 164:
\<close>

definition apply_trainerSet ::
  "rawPokemonConfig \<Rightarrow> string \<Rightarrow> preset \<Rightarrow> pokemonOptions \<Rightarrow> pokemonOptions" where
  "apply_trainerSet raw speciesName trainerSet pokemonOptions =
     pokemonOptions
       \<lparr> opt_name := Some speciesName,
         opt_level := or_int (set_level trainerSet) (opt_level pokemonOptions),
         opt_ability := or_str_opt (set_ability trainerSet) (opt_ability pokemonOptions),
         opt_item := or_str_opt (set_item trainerSet) (opt_item pokemonOptions),
         opt_nature := or_str (set_nature trainerSet) (opt_nature pokemonOptions),
         opt_ivs := spread (spread defaultIVs (set_ivs trainerSet)) (raw_ivs raw),
         opt_evs := spread (spread defaultEVs (set_evs trainerSet)) (raw_evs raw),
         opt_moves := or_obj (set_moves trainerSet) (opt_moves pokemonOptions) \<rparr>"

text \<open>Then \<^verbatim>\<open>cli_calc.js\<close>, lines 151 to 166:\<close>

definition apply_trainerSet_cli :: "string \<Rightarrow> preset \<Rightarrow> pokemonOptions \<Rightarrow> pokemonOptions" where
  "apply_trainerSet_cli speciesName trainerSet pokemonOptions =
     pokemonOptions
       \<lparr> opt_name := Some speciesName,
         opt_level := or_int (set_level trainerSet) 100,
         opt_ability := set_ability trainerSet,
         opt_item := set_item trainerSet,
         opt_nature := or_str (set_nature trainerSet) ''Serious'',
         opt_ivs := spread defaultIVs (set_ivs trainerSet),
         opt_evs := spread defaultEVs (set_evs trainerSet),
         opt_moves := or_obj (set_moves trainerSet) (opt_moves pokemonOptions) \<rparr>"

definition require_name :: "pokemonOptions \<Rightarrow> js_error + pokemonOptions" where
  "require_name pokemonOptions =
     (if truthy_str (opt_name pokemonOptions) then Inr pokemonOptions
      else Inl (Error msg_no_name))"

definition getPokemonOptions ::
  "regexp_host \<Rightarrow> (int \<Rightarrow> setdex option) \<Rightarrow> int \<Rightarrow> rawPokemonConfig
     \<Rightarrow> js_error + pokemonOptions" where
  "getPokemonOptions host SETDEX_BY_GEN genNum raw =
     (case raw_trainerPokemon raw of
        None \<Rightarrow> require_name (base_options raw)
      | Some tp \<Rightarrow>
          (case resolveOne host SETDEX_BY_GEN msg_no_setdex genNum
                  (tp_speciesName tp) (tp_trainerName tp) of
             Inl e \<Rightarrow> Inl e
           | Inr trainerSet \<Rightarrow>
               require_name (apply_trainerSet raw (tp_speciesName tp) trainerSet (base_options raw))))"

definition getPokemonOptions_cli ::
  "regexp_host \<Rightarrow> (int \<Rightarrow> setdex option) \<Rightarrow> int \<Rightarrow> rawPokemonConfig
     \<Rightarrow> js_error + pokemonOptions" where
  "getPokemonOptions_cli host SETDEX_BY_GEN genNum raw =
     (case raw_trainerPokemon raw of
        None \<Rightarrow> require_name (base_options raw)
      | Some tp \<Rightarrow>
          (case resolveOne host SETDEX_BY_GEN msg_no_setdex_cli genNum
                  (tp_speciesName tp) (tp_trainerName tp) of
             Inl e \<Rightarrow> Inl e
           | Inr trainerSet \<Rightarrow>
               require_name (apply_trainerSet_cli (tp_speciesName tp) trainerSet (base_options raw))))"

text \<open>
  \<^verbatim>\<open>getTrainerPokemonSets\<close> of \<^verbatim>\<open>graphql_server.js\<close>, which lists every set of a trainer. It
  escapes the trainer name before it builds the regular expression, once, ahead of
  the loops.
\<close>

record trainerPokemonSet =
  tps_speciesName :: string
  tps_setName :: string
  tps_level :: "int option"
  tps_ability :: string
  tps_item :: string
  tps_nature :: string
  tps_ivs :: stats
  tps_evs :: stats
  tps_moves :: "string list"

definition listed_set :: "string \<Rightarrow> string \<times> preset \<Rightarrow> trainerPokemonSet" where
  "listed_set speciesName entry =
     \<lparr> tps_speciesName = speciesName,
       tps_setName = fst entry,
       tps_level = set_level (snd entry),
       tps_ability = or_str (set_ability (snd entry)) ''N/A'',
       tps_item = or_str (set_item (snd entry)) ''N/A'',
       tps_nature = or_str (set_nature (snd entry)) ''Serious'',
       tps_ivs = or_obj (set_ivs (snd entry)) defaultIVs,
       tps_evs = or_obj (set_evs (snd entry)) defaultEVs,
       tps_moves = or_obj (set_moves (snd entry)) [] \<rparr>"

definition getTrainerPokemonSets ::
  "regexp_host \<Rightarrow> (int \<Rightarrow> setdex option) \<Rightarrow> int \<Rightarrow> string \<Rightarrow> js_error + trainerPokemonSet list" where
  "getTrainerPokemonSets host SETDEX_BY_GEN generation trainerName =
     (case SETDEX_BY_GEN generation of
        None \<Rightarrow>
          Inl (Error (Pokemon_word @ '' set data not found for Generation '' @
                      show_int generation @ ''.''))
      | Some setdex \<Rightarrow>
          (case RegExp_i host (word_pattern (escape_regexp trainerName)) of
             Inl e \<Rightarrow> Inl e
           | Inr trainerNameRegex \<Rightarrow>
               Inr (concat (map (\<lambda>(speciesName, speciesSets).
                      map (listed_set speciesName)
                        (filter (\<lambda>(setName, currentSet).
                           trainerNameRegex setName \<or> test_trainer trainerNameRegex currentSet)
                         speciesSets)) setdex))))"

section \<open>The damage engine\<close>

text \<open>
  The engine is the library the code imports: \<^verbatim>\<open>Generations\<close>, \<^verbatim>\<open>Pokemon\<close>, \<^verbatim>\<open>Move\<close>,
  \<^verbatim>\<open>Field\<close> and \<^verbatim>\<open>calculate\<close>, with the properties and methods the code reads from their
  objects. It is a parameter of the model, and any of its functions may throw. The type
  variables stand for its objects: a generation, a combatant, a move, a field, a result.
\<close>

record side =
  isSR :: "bool option"
  spikes :: "int option"
  isReflect :: "bool option"
  isLightScreen :: "bool option"

record fieldInput =
  weather :: "string option"
  terrain :: "string option"
  isGravity :: "bool option"
  isMagicRoom :: "bool option"
  isWonderRoom :: "bool option"
  isBeadsOfRuin :: "bool option"
  isTabletsOfRuin :: "bool option"
  isSwordOfRuin :: "bool option"
  isVesselOfRuin :: "bool option"
  pokemon1Side :: "side option"
  pokemon2Side :: "side option"

text \<open>The argument of \<^verbatim>\<open>new Field\<close>: the properties taken from the input and the two sides.\<close>

record fieldOptions =
  fo_field :: fieldInput
  attackerSide :: side
  defenderSide :: side

record ('g, 'p, 'm, 'f, 'r) engine =
  Generations_get :: "int \<Rightarrow> js_error + 'g"
  gen_num :: "'g \<Rightarrow> int"
  new_Pokemon :: "'g \<Rightarrow> string option \<Rightarrow> pokemonOptions \<Rightarrow> js_error + 'p"
  p_name :: "'p \<Rightarrow> string"
  p_level :: "'p \<Rightarrow> int"
  p_ability :: "'p \<Rightarrow> string option"
  p_item :: "'p \<Rightarrow> string option"
  maxHP :: "'p \<Rightarrow> js_error + int"
  new_Move :: "'g \<Rightarrow> string \<Rightarrow> bool \<Rightarrow> js_error + 'm"
  m_bp :: "'m \<Rightarrow> int option"
  m_name :: "'m \<Rightarrow> string"
  new_Field :: "fieldOptions \<Rightarrow> js_error + 'f"
  calculate :: "'g \<Rightarrow> 'p \<Rightarrow> 'p \<Rightarrow> 'm \<Rightarrow> 'f \<Rightarrow> js_error + 'r"
  r_range :: "'r \<Rightarrow> js_error + int \<times> int"
  r_kochance_text :: "'r \<Rightarrow> js_error + string"
  r_desc :: "'r \<Rightarrow> js_error + string"

text \<open>
  The calls of the engine's constructors and of \<^verbatim>\<open>calculate\<close> are recorded: a function
  that calls the engine returns the list of its calls, in order, with its outcome.
\<close>

datatype ('g, 'p, 'm, 'f) engine_call =
    GetGeneration int
  | NewPokemon "string option"
  | NewMove string bool
  | NewField fieldOptions
  | Calculate 'g 'p 'p 'm 'f

section \<open>Formatting one hit\<close>

text \<open>
  A percentage is a JavaScript number: a division by zero gives an infinity or
  \<^verbatim>\<open>NaN\<close> and does not throw. The finite ones are kept exact: for a damage below
  \<open>2 ^ 53 / 1000\<close> the floor of the quotient of doubles is the floor of the exact
  quotient, and its tenth is the double nearest to the rational number of the model.
\<close>

datatype jsnumber = Num rat | Infinity | NegInfinity | NaN

text \<open>\<^verbatim>\<open>Math.floor((damage * 1000) / defender.maxHP()) / 10\<close>\<close>

definition percentage :: "int \<Rightarrow> int \<Rightarrow> jsnumber" where
  "percentage damage hp =
     (if hp = 0 then (if damage = 0 then NaN else if 0 < damage then Infinity else NegInfinity)
      else Num (of_int \<lfloor>(of_int (damage * 1000) :: rat) / of_int hp\<rfloor> / 10))"

record hitResult =
  damageRange :: "int \<times> int"
  percentageRange :: "jsnumber \<times> jsnumber"
  koChance :: string
  description :: string

text \<open>The statements inside \<^verbatim>\<open>try\<close>, in order; the first that throws ends them.\<close>

definition try_block ::
  "('g, 'p, 'm, 'f, 'r) engine \<Rightarrow> 'g \<Rightarrow> 'p \<Rightarrow> 'p \<Rightarrow> 'm \<Rightarrow> 'f \<Rightarrow> js_error + hitResult" where
  "try_block eng gen attacker defender move field =
     (case calculate eng gen attacker defender move field of
        Inl e \<Rightarrow> Inl e
      | Inr currentResult \<Rightarrow>
          (case r_range eng currentResult of
             Inl e \<Rightarrow> Inl e
           | Inr (dmgMin, dmgMax) \<Rightarrow>
               if dmgMax = 0 then
                 Inr \<lparr> damageRange = (0, 0),
                       percentageRange = (Num 0, Num 0),
                       koChance = ''Immune / No damaging effect'',
                       description = m_name eng move @ '' had no damaging effect on '' @
                                     p_name eng defender @ ''.'' \<rparr>
               else
                 (case maxHP eng defender of
                    Inl e \<Rightarrow> Inl e
                  | Inr hp \<Rightarrow>
                      (case r_kochance_text eng currentResult of
                         Inl e \<Rightarrow> Inl e
                       | Inr ko \<Rightarrow>
                           (case r_desc eng currentResult of
                              Inl e \<Rightarrow> Inl e
                            | Inr d \<Rightarrow>
                                Inr \<lparr> damageRange = (dmgMin, dmgMax),
                                      percentageRange = (percentage dmgMin hp, percentage dmgMax hp),
                                      koChance = ko,
                                      description = d \<rparr>)))))"

text \<open>
  \<^verbatim>\<open>getFormattedResult\<close>, the same function in both files. The move is constructed before
  \<^verbatim>\<open>try\<close>, so an error of the constructor leaves the function.
\<close>

definition getFormattedResult ::
  "('g, 'p, 'm, 'f, 'r) engine \<Rightarrow> 'g \<Rightarrow> 'p \<Rightarrow> 'p \<Rightarrow> string \<Rightarrow> 'f \<Rightarrow> bool
     \<Rightarrow> ('g, 'p, 'm, 'f) engine_call list \<times> (js_error + hitResult)" where
  "getFormattedResult eng gen attacker defender moveName field isCrit =
     (case new_Move eng gen moveName isCrit of
        Inl e \<Rightarrow> ([NewMove moveName isCrit], Inl e)
      | Inr move \<Rightarrow>
          if m_bp eng move = Some 0 then
            ([NewMove moveName isCrit],
             Inr \<lparr> damageRange = (0, 0),
                   percentageRange = (Num 0, Num 0),
                   koChance = ''No damaging effect'',
                   description =
                     (if isCrit
                      then m_name eng move @ '' is a non-damaging move, so it cannot critically hit.''
                      else m_name eng move @ '' is a non-damaging move.'') \<rparr>)
          else
            ([NewMove moveName isCrit, Calculate gen attacker defender move field],
             (case try_block eng gen attacker defender move field of
                Inr hit \<Rightarrow> Inr hit
              | Inl calcError \<Rightarrow>
                  Inr \<lparr> damageRange = (0, 0),
                        percentageRange = (Num 0, Num 0),
                        koChance = ''Calculation Error / No effect'',
                        description = m_name eng move @ '' could not be calculated: '' @
                                      message calcError \<rparr>)))"

section \<open>The two directions of a matchup\<close>

text \<open>Sequencing of functions that call the engine: the calls add up, an error ends the sequence.\<close>

definition and_then ::
  "'c list \<times> (js_error + 'a) \<Rightarrow> ('a \<Rightarrow> 'c list \<times> (js_error + 'b)) \<Rightarrow> 'c list \<times> (js_error + 'b)" where
  "and_then m f =
     (case m of
        (t, Inl e) \<Rightarrow> (t, Inl e)
      | (t, Inr x) \<Rightarrow> (case f x of (t', r) \<Rightarrow> (t @ t', r)))"

record pokemonSummary =
  ps_name :: string
  ps_level :: int
  ps_ability :: string
  ps_item :: string

definition summary :: "('g, 'p, 'm, 'f, 'r) engine \<Rightarrow> 'p \<Rightarrow> pokemonSummary" where
  "summary eng pokemon =
     \<lparr> ps_name = p_name eng pokemon,
       ps_level = p_level eng pokemon,
       ps_ability = or_str (p_ability eng pokemon) ''N/A'',
       ps_item = or_str (p_item eng pokemon) ''N/A'' \<rparr>"

record moveCalculation =
  mc_moveName :: string
  normalHit :: hitResult
  criticalHit :: hitResult

text \<open>In \<open>attackDirectionResult\<close> an absent property is \<open>None\<close>.\<close>

record attackDirectionResult =
  adr_message :: "string option"
  adr_attacker :: pokemonSummary
  adr_defender :: pokemonSummary
  adr_moves :: "moveCalculation list option"

text \<open>The loop \<^verbatim>\<open>for (const moveName of ...Options.moves)\<close> with its \<^verbatim>\<open>push\<close>.\<close>

primrec moveCalculations ::
  "('g, 'p, 'm, 'f, 'r) engine \<Rightarrow> 'g \<Rightarrow> 'p \<Rightarrow> 'p \<Rightarrow> 'f \<Rightarrow> string list
     \<Rightarrow> ('g, 'p, 'm, 'f) engine_call list \<times> (js_error + moveCalculation list)" where
  "moveCalculations eng gen attacker defender field [] = ([], Inr [])"
| "moveCalculations eng gen attacker defender field (moveName # rest) =
     and_then (getFormattedResult eng gen attacker defender moveName field False) (\<lambda>normal.
     and_then (getFormattedResult eng gen attacker defender moveName field True) (\<lambda>critical.
     and_then (moveCalculations eng gen attacker defender field rest) (\<lambda>calcs.
       ([], Inr (\<lparr> mc_moveName = moveName, normalHit = normal, criticalHit = critical \<rparr>
                 # calcs)))))"

text \<open>
  One direction. The four blocks of the two files are this text, with the two combatants
  and the two sides exchanged for the second direction. In the branch for no moves
  \<^verbatim>\<open>graphql_server.js\<close> gives the result a property \<^verbatim>\<open>moves: []\<close> and \<^verbatim>\<open>cli_calc.js\<close> gives it no
  such property: the first argument is that property.
\<close>

definition attack_direction ::
  "moveCalculation list option \<Rightarrow> ('g, 'p, 'm, 'f, 'r) engine \<Rightarrow> 'g \<Rightarrow> 'p \<Rightarrow> 'p
     \<Rightarrow> string list \<Rightarrow> fieldOptions
     \<Rightarrow> ('g, 'p, 'm, 'f) engine_call list \<times> (js_error + attackDirectionResult)" where
  "attack_direction no_moves eng gen attacker defender moves fo =
     (if 0 < length moves then
        and_then ([NewField fo], new_Field eng fo) (\<lambda>field.
        and_then (moveCalculations eng gen attacker defender field moves) (\<lambda>calcs.
          ([], Inr \<lparr> adr_message = None,
                      adr_attacker = summary eng attacker,
                      adr_defender = summary eng defender,
                      adr_moves = Some calcs \<rparr>)))
      else
        ([], Inr \<lparr> adr_message = Some (p_name eng attacker @ '' has no moves to calculate.''),
                    adr_attacker = summary eng attacker,
                    adr_defender = summary eng defender,
                    adr_moves = no_moves \<rparr>))"

definition no_side :: side where
  "no_side = \<lparr> isSR = None, spikes = None, isReflect = None, isLightScreen = None \<rparr>"

definition no_field :: fieldInput where
  "no_field =
     \<lparr> weather = None, terrain = None, isGravity = None, isMagicRoom = None,
       isWonderRoom = None, isBeadsOfRuin = None, isTabletsOfRuin = None,
       isSwordOfRuin = None, isVesselOfRuin = None, pokemon1Side = None, pokemon2Side = None \<rparr>"

text \<open>\<^verbatim>\<open>options.field?.pokemon1Side || {}\<close> and the same for the second side.\<close>

definition side1 :: "fieldInput option \<Rightarrow> side" where
  "side1 f = or_obj (case f of None \<Rightarrow> None | Some x \<Rightarrow> pokemon1Side x) no_side"

definition side2 :: "fieldInput option \<Rightarrow> side" where
  "side2 f = or_obj (case f of None \<Rightarrow> None | Some x \<Rightarrow> pokemon2Side x) no_side"

record calculateDamageInput =
  in_generation :: "int option"
  in_pokemon1 :: rawPokemonConfig
  in_pokemon2 :: rawPokemonConfig
  in_field :: "fieldInput option"

text \<open>
  The argument of \<^verbatim>\<open>new Field\<close> for the two directions: the first combatant's side is the
  attacker's side when the first combatant attacks, and the defender's side when the
  second does. The first argument stands for the properties spread before the sides.
\<close>

definition field12 :: "fieldInput \<Rightarrow> calculateDamageInput \<Rightarrow> fieldOptions" where
  "field12 f options =
     \<lparr> fo_field = f, attackerSide = side1 (in_field options),
       defenderSide = side2 (in_field options) \<rparr>"

definition field21 :: "fieldInput \<Rightarrow> calculateDamageInput \<Rightarrow> fieldOptions" where
  "field21 f options =
     \<lparr> fo_field = f, attackerSide = side2 (in_field options),
       defenderSide = side1 (in_field options) \<rparr>"

subsection \<open>The resolver \<^verbatim>\<open>calculateDamage\<close> of \<^verbatim>\<open>graphql_server.js\<close>\<close>

record calculationResult =
  generation :: int
  pokemon1 :: pokemonSummary
  pokemon2 :: pokemonSummary
  pokemon1AttackingPokemon2 :: attackDirectionResult
  pokemon2AttackingPokemon1 :: attackDirectionResult

definition calculateDamage ::
  "('g, 'p, 'm, 'f, 'r) engine \<Rightarrow> regexp_host \<Rightarrow> (int \<Rightarrow> setdex option) \<Rightarrow> calculateDamageInput
     \<Rightarrow> ('g, 'p, 'm, 'f) engine_call list \<times> (js_error + calculationResult)" where
  "calculateDamage eng host SETDEX_BY_GEN options =
     and_then ([GetGeneration (or_int (in_generation options) 9)],
               Generations_get eng (or_int (in_generation options) 9)) (\<lambda>gen.
     and_then ([], getPokemonOptions host SETDEX_BY_GEN (gen_num eng gen) (in_pokemon1 options))
       (\<lambda>pokemon1Options.
     and_then ([], getPokemonOptions host SETDEX_BY_GEN (gen_num eng gen) (in_pokemon2 options))
       (\<lambda>pokemon2Options.
     and_then ([NewPokemon (opt_name pokemon1Options)],
               new_Pokemon eng gen (opt_name pokemon1Options) pokemon1Options) (\<lambda>p1.
     and_then ([NewPokemon (opt_name pokemon2Options)],
               new_Pokemon eng gen (opt_name pokemon2Options) pokemon2Options) (\<lambda>p2.
     and_then (attack_direction (Some []) eng gen p1 p2 (opt_moves pokemon1Options)
                 (field12 (or_obj (in_field options) no_field) options)) (\<lambda>d12.
     and_then (attack_direction (Some []) eng gen p2 p1 (opt_moves pokemon2Options)
                 (field21 (or_obj (in_field options) no_field) options)) (\<lambda>d21.
       ([], Inr \<lparr> generation = gen_num eng gen,
                   pokemon1 = summary eng p1,
                   pokemon2 = summary eng p2,
                   pokemon1AttackingPokemon2 = d12,
                   pokemon2AttackingPokemon1 = d21 \<rparr>))))))))"

subsection \<open>The function \<^verbatim>\<open>calculateDamageCLI\<close> of \<^verbatim>\<open>cli_calc.js\<close>\<close>

record cliResults =
  cli_pokemon1AttackingPokemon2 :: attackDirectionResult
  cli_pokemon2AttackingPokemon1 :: attackDirectionResult

text \<open>
  The function prints: the results with \<^verbatim>\<open>console.log\<close>, or, when anything inside its
  \<^verbatim>\<open>try\<close> throws, the message of the error with \<^verbatim>\<open>console.error\<close> and no result.
\<close>

datatype cli_output = Logged cliResults | ErrorLogged string

definition cli_fieldOptions :: "fieldInput option \<Rightarrow> fieldInput" where
  "cli_fieldOptions f =
     (let x = or_obj f no_field in
      \<lparr> weather = weather x,
        terrain = terrain x,
        isGravity = Some (or_bool (isGravity x) False),
        isMagicRoom = Some (or_bool (isMagicRoom x) False),
        isWonderRoom = Some (or_bool (isWonderRoom x) False),
        isBeadsOfRuin = Some (or_bool (isBeadsOfRuin x) False),
        isTabletsOfRuin = Some (or_bool (isTabletsOfRuin x) False),
        isSwordOfRuin = Some (or_bool (isSwordOfRuin x) False),
        isVesselOfRuin = Some (or_bool (isVesselOfRuin x) False),
        pokemon1Side = None,
        pokemon2Side = None \<rparr>)"

definition cli_try ::
  "('g, 'p, 'm, 'f, 'r) engine \<Rightarrow> regexp_host \<Rightarrow> (int \<Rightarrow> setdex option) \<Rightarrow> 'g
     \<Rightarrow> calculateDamageInput
     \<Rightarrow> ('g, 'p, 'm, 'f) engine_call list \<times> (js_error + cliResults)" where
  "cli_try eng host SETDEX_BY_GEN gen options =
     and_then ([], getPokemonOptions_cli host SETDEX_BY_GEN (gen_num eng gen) (in_pokemon1 options))
       (\<lambda>pokemon1Options.
     and_then ([], getPokemonOptions_cli host SETDEX_BY_GEN (gen_num eng gen) (in_pokemon2 options))
       (\<lambda>pokemon2Options.
     and_then ([NewPokemon (opt_name pokemon1Options)],
               new_Pokemon eng gen (opt_name pokemon1Options) pokemon1Options) (\<lambda>p1.
     and_then ([NewPokemon (opt_name pokemon2Options)],
               new_Pokemon eng gen (opt_name pokemon2Options) pokemon2Options) (\<lambda>p2.
     and_then (attack_direction None eng gen p1 p2 (opt_moves pokemon1Options)
                 (field12 (cli_fieldOptions (in_field options)) options)) (\<lambda>d12.
     and_then (attack_direction None eng gen p2 p1 (opt_moves pokemon2Options)
                 (field21 (cli_fieldOptions (in_field options)) options)) (\<lambda>d21.
       ([], Inr \<lparr> cli_pokemon1AttackingPokemon2 = d12,
                   cli_pokemon2AttackingPokemon1 = d21 \<rparr>)))))))"

definition calculateDamageCLI ::
  "('g, 'p, 'm, 'f, 'r) engine \<Rightarrow> regexp_host \<Rightarrow> (int \<Rightarrow> setdex option) \<Rightarrow> calculateDamageInput
     \<Rightarrow> ('g, 'p, 'm, 'f) engine_call list \<times> (js_error + cli_output)" where
  "calculateDamageCLI eng host SETDEX_BY_GEN options =
     and_then ([GetGeneration (or_int (in_generation options) 9)],
               Generations_get eng (or_int (in_generation options) 9)) (\<lambda>gen.
       (case cli_try eng host SETDEX_BY_GEN gen options of
          (t, Inl error) \<Rightarrow> (t, Inr (ErrorLogged (message error)))
        | (t, Inr results) \<Rightarrow> (t, Inr (Logged results))))"

section \<open>The specification's notions\<close>

text \<open>
  The definitions of this section follow the words of the specification and are compared
  with the code in the theorems. A string contains a name as a whole word, case
  insensitively, when the name occurs in it, up to the case of letters, between two
  word boundaries.
\<close>

definition contains_word :: "string \<Rightarrow> string \<Rightarrow> bool" where
  "contains_word name s \<longleftrightarrow>
     (\<exists>i. i + length name \<le> length s \<and>
          is_word_boundary s i \<and>
          map canonicalize (take (length name) (drop i s)) = map canonicalize name \<and>
          is_word_boundary s (i + length name))"

text \<open>A name without regular expression syntax characters.\<close>

definition plain_name :: "string \<Rightarrow> bool" where
  "plain_name name \<longleftrightarrow> (\<forall>c \<in> set name. \<not> syntax_character c)"

text \<open>
  The strong match of a set: its name, or its trainer label if it has one, contains the
  trainer name as a whole word. The weak match: the first words are the same.
\<close>

definition strong_match :: "string \<Rightarrow> string \<times> preset \<Rightarrow> bool" where
  "strong_match name entry \<longleftrightarrow>
     contains_word name (fst entry) \<or>
     (case set_trainer (snd entry) of None \<Rightarrow> False | Some t \<Rightarrow> contains_word name t)"

definition weak_match :: "string \<Rightarrow> string \<times> preset \<Rightarrow> bool" where
  "weak_match name entry \<longleftrightarrow> first_word (fst entry) = first_word name"

text \<open>
  The value of a stat from three layers: the explicit value if there is one, else the
  value of the set if there is one, else the default. \<open>supplied obj k\<close> is the value an
  optional object gives to the key \<open>k\<close>.
\<close>

definition layered :: "'v \<Rightarrow> 'v option \<Rightarrow> 'v option \<Rightarrow> 'v" where
  "layered d preset_value explicit =
     (case explicit of Some v \<Rightarrow> v | None \<Rightarrow> (case preset_value of Some v \<Rightarrow> v | None \<Rightarrow> d))"

definition supplied :: "('k \<rightharpoonup> 'v) option \<Rightarrow> 'k \<Rightarrow> 'v option" where
  "supplied obj k = (case obj of None \<Rightarrow> None | Some m \<Rightarrow> m k)"

text \<open>
  A truthy value of an optional number or text: one that is present and is not 0, or
  not the empty string. Of an absent or a falsy value nothing remains.
\<close>

definition truthy_number :: "int option \<Rightarrow> int option" where
  "truthy_number v = (case v of None \<Rightarrow> None | Some n \<Rightarrow> if n = 0 then None else Some n)"

definition truthy_text :: "string option \<Rightarrow> string option" where
  "truthy_text v = (case v of None \<Rightarrow> None | Some t \<Rightarrow> if t = [] then None else Some t)"

section \<open>Example data\<close>

text \<open>
  Set data for one generation with two species, and a configuration that names a
  trainer and gives explicit values as well. The host rejects every pattern it is asked
  about; the patterns of the examples never reach it.
\<close>

definition ex_host :: regexp_host where
  "ex_host p = Inl (SyntaxError (''Invalid regular expression: /'' @ p @ ''/i''))"

definition ex_wattson :: preset where
  "ex_wattson =
     \<lparr> set_level = Some 40, set_ability = Some ''Static'', set_item = None,
       set_nature = Some ''Modest'', set_ivs = None,
       set_evs = Some [HP \<mapsto> 6, SPE \<mapsto> 252],
       set_moves = Some [''Thunderbolt'', ''Thunder Wave''], set_trainer = None \<rparr>"

definition ex_calvin :: preset where
  "ex_calvin =
     \<lparr> set_level = Some 5, set_ability = None, set_item = Some [],
       set_nature = None, set_ivs = Some [ATK \<mapsto> 20],
       set_evs = None, set_moves = None, set_trainer = None \<rparr>"

definition ex_setdex :: "int \<Rightarrow> setdex option" where
  "ex_setdex g =
     (if g = 8 then
        Some [(''Manectric'', [(''Leader Wattson'', ex_wattson)]),
              (''Zigzagoon'', [(''Youngster Calvin (1)'', ex_calvin)])]
      else None)"

definition ex_raw :: "string \<Rightarrow> string \<Rightarrow> rawPokemonConfig" where
  "ex_raw species trainer =
     \<lparr> raw_name = None, raw_level = Some 50, raw_ability = Some ''Lightning Rod'',
       raw_item = Some ''Magnet'', raw_nature = None,
       raw_ivs = Some [ATK \<mapsto> 0], raw_evs = Some [SPE \<mapsto> 4],
       raw_boosts = None, raw_curHP = None, raw_status = None, raw_isDynamaxed = None,
       raw_moves = Some [''Spark''],
       raw_trainerPokemon = Some \<lparr> tp_speciesName = species, tp_trainerName = trainer \<rparr> \<rparr>"

text \<open>
  Set data with a set whose level is 0 and whose ability, item and nature are the empty
  string.
\<close>

definition ex_rick :: preset where
  "ex_rick =
     \<lparr> set_level = Some 0, set_ability = Some [], set_item = Some [],
       set_nature = Some [], set_ivs = None, set_evs = None, set_moves = None,
       set_trainer = None \<rparr>"

definition ex_setdex_falsy :: "int \<Rightarrow> setdex option" where
  "ex_setdex_falsy g =
     (if g = 8 then Some [(''Wurmple'', [(''Bug Catcher Rick'', ex_rick)])] else None)"

text \<open>One stat of the options, for reading results.\<close>

definition opt_iv :: "stat \<Rightarrow> pokemonOptions \<Rightarrow> int option" where
  "opt_iv s opts = opt_ivs opts s"

definition opt_ev :: "stat \<Rightarrow> pokemonOptions \<Rightarrow> int option" where
  "opt_ev s opts = opt_evs opts s"

text \<open>
  A positive number cut to one decimal place is truncated toward zero, a negative one
  likewise.
\<close>

definition truncate_tenth :: "rat \<Rightarrow> rat" where
  "truncate_tenth x = (if 0 \<le> x then of_int \<lfloor>x * 10\<rfloor> / 10 else of_int \<lceil>x * 10\<rceil> / 10)"




definition logged :: "cli_output \<Rightarrow> cliResults option" where
  "logged out = (case out of Logged r \<Rightarrow> Some r | ErrorLogged m \<Rightarrow> None)"

text \<open>The result of a direction whose attacker has no moves; the last argument is its property \<^verbatim>\<open>moves\<close>.\<close>

definition no_moves_result ::
  "('g, 'p, 'm, 'f, 'r) engine \<Rightarrow> 'p \<Rightarrow> 'p \<Rightarrow> moveCalculation list option
     \<Rightarrow> attackDirectionResult" where
  "no_moves_result eng attacker defender no_moves =
     \<lparr> adr_message = Some (p_name eng attacker @ '' has no moves to calculate.''),
       adr_attacker = summary eng attacker,
       adr_defender = summary eng defender,
       adr_moves = no_moves \<rparr>"

text \<open>
  An engine for the examples. It constructs a move for every name, cannot calculate
  "Sky Drop", and has "Swords Dance" as its only move without base power; every
  combatant has 402
  hit points. A configuration without trainer reference, and a request for Garchomp
  against Corviknight in generation 9.
\<close>

definition ex_engine :: "(int, string, string \<times> bool, unit, int \<times> int) engine" where
  "ex_engine =
     \<lparr> Generations_get = (\<lambda>n. if 1 \<le> n \<and> n \<le> 9 then Inr n else Inl (Error ''unknown generation'')),
       gen_num = (\<lambda>g. g),
       new_Pokemon = (\<lambda>g name opts. case name of None \<Rightarrow> Inl (Error ''no species'') | Some n \<Rightarrow> Inr n),
       p_name = (\<lambda>p. p),
       p_level = (\<lambda>p. 100),
       p_ability = (\<lambda>p. None),
       p_item = (\<lambda>p. None),
       maxHP = (\<lambda>p. Inr 402),
       new_Move = (\<lambda>g name crit. Inr (name, crit)),
       m_bp = (\<lambda>m. if fst m = ''Swords Dance'' then Some 0 else Some 80),
       m_name = fst,
       new_Field = (\<lambda>fo. Inr ()),
       calculate = (\<lambda>g a d m f.
         if fst m = ''Sky Drop'' then Inl (Error ''Sky Drop is not supported'')
         else Inr (if snd m then (102, 121) else (68, 81))),
       r_range = Inr,
       r_kochance_text = (\<lambda>r. Inr ''possible 5HKO''),
       r_desc = (\<lambda>r. Inr ''Garchomp Dragon Claw vs. Corviknight'') \<rparr>"

definition ex_direct :: "string \<Rightarrow> string list option \<Rightarrow> rawPokemonConfig" where
  "ex_direct name moves =
     \<lparr> raw_name = Some name, raw_level = None, raw_ability = None, raw_item = None,
       raw_nature = None, raw_ivs = None, raw_evs = None, raw_boosts = None, raw_curHP = None,
       raw_status = None, raw_isDynamaxed = None, raw_moves = moves,
       raw_trainerPokemon = None \<rparr>"

definition ex_input :: "string list option \<Rightarrow> string list option \<Rightarrow> calculateDamageInput" where
  "ex_input moves1 moves2 =
     \<lparr> in_generation = Some 9,
       in_pokemon1 = ex_direct ''Garchomp'' moves1,
       in_pokemon2 = ex_direct ''Corviknight'' moves2,
       in_field = None \<rparr>"

section \<open>The regular expressions\<close>

text \<open>
  A trainer name without syntax characters compiles to its literal pattern between two
  word boundaries; so does every escaped trainer name.
\<close>

lemma parse_plain_suffix:
  "\<forall>c \<in> set name. \<not> syntax_character c \<Longrightarrow>
   parse_pattern (name @ [backslash, CHR ''b'']) = Some (map PatternChar name @ [WordBoundary])"
proof (induction name)
  case Nil
  then show ?case by simp
next
  case (Cons c cs)
  then have c: "\<not> syntax_character c" "c \<noteq> backslash" by (auto simp: syntax_character_def)
  from Cons have ih: "parse_pattern (cs @ [backslash, CHR ''b'']) = Some (map PatternChar cs @ [WordBoundary])" by simp
  show ?case
  proof (cases cs)
    case Nil
    with c show ?thesis by simp
  next
    case (Cons d ds)
    with c ih show ?thesis by simp
  qed
qed

lemma parse_word_pattern:
  assumes "plain_name name"
  shows "parse_pattern (word_pattern name) = Some (WordBoundary # map PatternChar name @ [WordBoundary])"
  using parse_plain_suffix[of name] assms by (simp add: word_pattern_def plain_name_def)

lemma group_error_plain_prefix:
  "\<forall>c \<in> set name. \<not> syntax_character c \<Longrightarrow>
   group_error (name @ rest) False False depth = group_error rest False False depth"
  by (induction name) (auto simp: syntax_character_def)

lemma group_error_word_pattern:
  assumes "plain_name name"
  shows "group_error (word_pattern name) False False 0 = None"
  using group_error_plain_prefix[of name "[backslash, CHR ''b'']" 0] assms
  by (simp add: word_pattern_def plain_name_def)

lemma identity_escape_not_b: "identity_escape c \<Longrightarrow> c \<noteq> CHR ''b''"
  by (auto simp: identity_escape_def backslash_def)

lemma syntax_identity: "syntax_character c \<Longrightarrow> identity_escape c"
  by (auto simp: identity_escape_def syntax_character_def)

lemma escape_regexp_Nil: "escape_regexp [] = []"
  by (simp add: escape_regexp_def)

lemma escape_regexp_Cons:
  "escape_regexp (c # cs) = (if identity_escape c then [backslash, c] else [c]) @ escape_regexp cs"
  by (simp add: escape_regexp_def)

lemma parse_escaped_suffix:
  "parse_pattern (escape_regexp name @ [backslash, CHR ''b'']) = Some (map PatternChar name @ [WordBoundary])"
proof (induction name)
  case Nil
  then show ?case by (simp add: escape_regexp_Nil)
next
  case (Cons c cs)
  let ?rest = "escape_regexp cs @ [backslash, CHR ''b'']"
  show ?case
  proof (cases "identity_escape c")
    case True
    have "escape_regexp (c # cs) @ [backslash, CHR ''b''] = backslash # c # ?rest"
      using True by (simp add: escape_regexp_Cons)
    moreover have "parse_pattern (backslash # c # ?rest) =
        map_option (Cons (PatternChar c)) (parse_pattern ?rest)"
      using True identity_escape_not_b[of c] by simp
    ultimately show ?thesis using Cons.IH by simp
  next
    case False
    have "\<not> syntax_character c"
      using False syntax_identity[of c] by blast
    moreover have "c \<noteq> backslash"
      using False by (simp add: identity_escape_def)
    ultimately have c: "\<not> syntax_character c" "c \<noteq> backslash" by blast+
    obtain d ds where e: "?rest = d # ds"
      by (cases ?rest) auto
    have "escape_regexp (c # cs) @ [backslash, CHR ''b''] = c # ?rest"
      using False by (simp add: escape_regexp_Cons)
    moreover have "parse_pattern (c # d # ds) = map_option (Cons (PatternChar c)) (parse_pattern (d # ds))"
      using c by simp
    ultimately show ?thesis using Cons.IH unfolding e by simp
  qed
qed

lemma group_error_escaped_prefix:
  "group_error (escape_regexp name @ rest) False False depth = group_error rest False False depth"
proof (induction name)
  case Nil
  then show ?case by (simp add: escape_regexp_Nil)
next
  case (Cons c cs)
  show ?case
  proof (cases "identity_escape c")
    case True
    then show ?thesis using Cons by (simp add: escape_regexp_Cons)
  next
    case False
    then have "c \<noteq> backslash" "c \<noteq> CHR ''[''" "c \<noteq> CHR ''(''" "c \<noteq> CHR '')''"
      by (auto simp: identity_escape_def)
    then show ?thesis using Cons False by (simp add: escape_regexp_Cons)
  qed
qed

lemma RegExp_escaped:
  "RegExp_i host (word_pattern (escape_regexp name)) =
     Inr (regexp_test (WordBoundary # map PatternChar name @ [WordBoundary]))"
  using parse_escaped_suffix[of name] group_error_escaped_prefix[of name "[backslash, CHR ''b'']" 0]
  by (simp add: RegExp_i_def word_pattern_def)

lemma RegExp_plain:
  "plain_name name \<Longrightarrow> RegExp_i host (word_pattern name) =
     Inr (regexp_test (WordBoundary # map PatternChar name @ [WordBoundary]))"
  by (simp add: RegExp_i_def parse_word_pattern group_error_word_pattern)

text \<open>The literal pattern tests whole word containment.\<close>

lemma matches_at_chars:
  "i \<le> length s \<Longrightarrow> matches_at (map PatternChar name @ ts) s i \<longleftrightarrow>
     i + length name \<le> length s \<and>
     map canonicalize (take (length name) (drop i s)) = map canonicalize name \<and>
     matches_at ts s (i + length name)"
proof (induction name arbitrary: i)
  case Nil
  then show ?case by simp
next
  case (Cons c cs)
  show ?case
  proof (cases "i < length s")
    case True
    then have "drop i s = s ! i # drop (Suc i) s" by (simp add: Cons_nth_drop_Suc)
    then show ?thesis using Cons.IH[of "Suc i"] True by auto
  next
    case False
    then show ?thesis by simp
  qed
qed

lemma regexp_test_iff: "regexp_test ts s \<longleftrightarrow> (\<exists>i\<le>length s. matches_at ts s i)"
proof -
  have "set [0..<Suc (length s)] = {i. i \<le> length s}"
    by (auto simp del: upt_Suc)
  then show ?thesis
    unfolding regexp_test_def list_ex_iff by blast
qed

lemma matches_at_word:
  assumes "i \<le> length s"
  shows "matches_at (WordBoundary # map PatternChar name @ [WordBoundary]) s i \<longleftrightarrow>
     is_word_boundary s i \<and> i + length name \<le> length s \<and>
     map canonicalize (take (length name) (drop i s)) = map canonicalize name \<and>
     is_word_boundary s (i + length name)"
  using matches_at_chars[OF assms, of name "[WordBoundary]"] by auto

lemma regexp_test_word:
  "regexp_test (WordBoundary # map PatternChar name @ [WordBoundary]) s \<longleftrightarrow> contains_word name s"
proof
  assume "regexp_test (WordBoundary # map PatternChar name @ [WordBoundary]) s"
  then obtain i where "i \<le> length s"
    and "matches_at (WordBoundary # map PatternChar name @ [WordBoundary]) s i"
    unfolding regexp_test_iff by blast
  then show "contains_word name s"
    unfolding contains_word_def using matches_at_word[of i s name] by blast
next
  assume "contains_word name s"
  then obtain i where i: "i + length name \<le> length s" "is_word_boundary s i"
    "map canonicalize (take (length name) (drop i s)) = map canonicalize name"
    "is_word_boundary s (i + length name)"
    unfolding contains_word_def by blast
  then have "i \<le> length s" by simp
  with i show "regexp_test (WordBoundary # map PatternChar name @ [WordBoundary]) s"
    unfolding regexp_test_iff using matches_at_word[of i s name] by blast
qed

lemma contains_word_Nil: "\<not> contains_word name []"
  by (simp add: contains_word_def is_word_boundary_def)

section \<open>The resolver\<close>

text \<open>
  For a trainer name without syntax characters the loop returns the first strong match,
  and the first weak match only when no set of the species matches strongly.
\<close>

lemma scan_sets_plain:
  assumes "plain_name name"
  shows "scan_sets host name sets cand =
     Inr (case find (strong_match name) sets of
            Some e \<Rightarrow> Some (snd e)
          | None \<Rightarrow> (case cand of
                       Some c \<Rightarrow> Some c
                     | None \<Rightarrow> map_option snd (find (weak_match name) sets)))"
proof (induction sets arbitrary: cand)
  case Nil
  then show ?case by (simp split: option.split)
next
  case (Cons entry rest)
  obtain setName currentSet where entry: "entry = (setName, currentSet)"
    by (cases entry)
  let ?rx = "regexp_test (WordBoundary # map PatternChar name @ [WordBoundary])"
  have rx: "RegExp_i host (word_pattern name) = Inr ?rx"
    using assms by (rule RegExp_plain)
  have strong: "(?rx setName \<or> test_trainer ?rx currentSet) = strong_match name entry"
    by (auto simp: strong_match_def test_trainer_def entry regexp_test_word contains_word_Nil
        split: option.splits)
  show ?case
  proof (cases "strong_match name entry")
    case True
    then show ?thesis using rx strong by (simp add: entry)
  next
    case False
    then show ?thesis
      using rx strong Cons.IH
      by (cases cand) (simp_all add: entry weak_match_def split: option.split)
  qed
qed

lemma resolveOne_plain:
  assumes "plain_name name"
    and "db g = Some setdex"
    and "map_of setdex species = Some sets"
  shows "resolveOne host db msg g species name =
     (case find (strong_match name) sets of
        Some e \<Rightarrow> Inr (snd e)
      | None \<Rightarrow>
          (case find (weak_match name) sets of
             Some e \<Rightarrow> Inr (snd e)
           | None \<Rightarrow>
               (case map_of sets name of
                  Some t \<Rightarrow> Inr t
                | None \<Rightarrow> Inl (Error (msg_no_trainer name species g)))))"
  using assms by (simp add: resolveOne_def scan_sets_plain split: option.split)

lemma resolveOne_strong_first:
  assumes "plain_name name"
    and "db g = Some setdex"
    and "map_of setdex species = Some sets"
    and "find (strong_match name) sets = Some (setName, p)"
  shows "resolveOne host db msg g species name = Inr p"
  using assms by (simp add: resolveOne_plain)

text \<open>A pattern with an open group is refused in the first round of the loop.\<close>

lemma scan_sets_syntax_error:
  assumes "group_error (word_pattern name) False False 0 = Some m"
  shows "scan_sets host name (entry # rest) cand =
     Inl (SyntaxError (''Invalid regular expression: /'' @ word_pattern name @ ''/i: '' @ m))"
  using assms by (cases entry) (simp add: RegExp_i_def)

lemma resolveOne_syntax_error:
  assumes "db g = Some setdex"
    and "map_of setdex species = Some (entry # rest)"
    and "group_error (word_pattern name) False False 0 = Some m"
  shows "resolveOne host db msg g species name =
     Inl (SyntaxError (''Invalid regular expression: /'' @ word_pattern name @ ''/i: '' @ m))"
  using assms by (simp add: resolveOne_def scan_sets_syntax_error)

lemma resolveOne_message_irrelevant:
  assumes "resolveOne host db msg g species name = Inr ts"
  shows "resolveOne host db msg' g species name = Inr ts"
  using assms by (auto simp: resolveOne_def split: option.splits sum.splits)

text \<open>\<^verbatim>\<open>getTrainerPokemonSets\<close> returns the strong matches for every trainer name.\<close>

lemma getTrainerPokemonSets_returns:
  assumes "db g = Some setdex"
  shows "getTrainerPokemonSets host db g name =
     Inr (concat (map (\<lambda>(species, sets).
            map (listed_set species) (filter (strong_match name) sets)) setdex))"
proof -
  let ?rx = "regexp_test (WordBoundary # map PatternChar name @ [WordBoundary])"
  have "(\<lambda>(setName, currentSet). ?rx setName \<or> test_trainer ?rx currentSet) = strong_match name"
    by (auto simp: fun_eq_iff strong_match_def test_trainer_def regexp_test_word contains_word_Nil
        split: option.splits)
  then show ?thesis
    using assms by (simp add: getTrainerPokemonSets_def RegExp_escaped)
qed

text \<open>The example data.\<close>

lemma ex_resolve_wattson:
  "resolveOne ex_host ex_setdex msg 8 ''Manectric'' ''Leader Wattson'' = Inr ex_wattson"
proof -
  have plain: "plain_name ''Leader Wattson''"
    by code_simp
  have "regexp_test (WordBoundary # map PatternChar ''Leader Wattson'' @ [WordBoundary])
          ''Leader Wattson''"
    by code_simp
  then show ?thesis
    by (simp add: resolveOne_def ex_setdex_def RegExp_plain[OF plain])
qed

lemma ex_resolve_calvin:
  "resolveOne ex_host ex_setdex msg 8 ''Zigzagoon'' ''Calvin'' = Inr ex_calvin"
proof -
  have plain: "plain_name ''Calvin''"
    by code_simp
  have "regexp_test (WordBoundary # map PatternChar ''Calvin'' @ [WordBoundary])
          ''Youngster Calvin (1)''"
    by code_simp
  then show ?thesis
    by (simp add: resolveOne_def ex_setdex_def RegExp_plain[OF plain])
qed

lemma ex_resolve_rick:
  "resolveOne ex_host ex_setdex_falsy msg 8 ''Wurmple'' ''Rick'' = Inr ex_rick"
proof -
  have plain: "plain_name ''Rick''"
    by code_simp
  have "regexp_test (WordBoundary # map PatternChar ''Rick'' @ [WordBoundary])
          ''Bug Catcher Rick''"
    by code_simp
  then show ?thesis
    by (simp add: resolveOne_def ex_setdex_falsy_def RegExp_plain[OF plain])
qed

lemma ex_raw_trainer:
  "raw_trainerPokemon (ex_raw species trainer) = Some \<lparr> tp_speciesName = species, tp_trainerName = trainer \<rparr>"
  by (simp add: ex_raw_def)

lemma unterminated_calvin:
  "group_error (word_pattern ''Calvin (1'') False False 0 = Some ''Unterminated group''"
  by code_simp

section \<open>Claims about the merged configuration\<close>

text \<open>
  Claim C1, as amended. With a trainer reference whose set is found,
  \<^verbatim>\<open>getPokemonOptions\<close> of \<^verbatim>\<open>graphql_server.js\<close> gives every stat of the IVs and of the EVs the
  explicit value if the configuration supplies one, else the value of the set if the set
  supplies one, else the default (31 for IVs, 0 for EVs). \<^verbatim>\<open>getPokemonOptions\<close> of
  \<^verbatim>\<open>cli_calc.js\<close> does not read the explicit values: every stat has the value of the set if
  the set supplies one, else the default.
\<close>

theorem stat_precedence:
  assumes "raw_trainerPokemon raw = Some tp"
    and "resolveOne host db msg_no_setdex g (tp_speciesName tp) (tp_trainerName tp) = Inr ts"
    and "tp_speciesName tp \<noteq> []"
  shows "(\<exists>opts. getPokemonOptions host db g raw = Inr opts \<and>
            (\<forall>s. opt_ivs opts s =
                   Some (layered 31 (supplied (set_ivs ts) s) (supplied (raw_ivs raw) s))) \<and>
            (\<forall>s. opt_evs opts s =
                   Some (layered 0 (supplied (set_evs ts) s) (supplied (raw_evs raw) s)))) \<and>
         (\<exists>opts. getPokemonOptions_cli host db g raw = Inr opts \<and>
            (\<forall>s. opt_ivs opts s = Some (layered 31 (supplied (set_ivs ts) s) None)) \<and>
            (\<forall>s. opt_evs opts s = Some (layered 0 (supplied (set_evs ts) s) None)))"
proof -
  have cli: "resolveOne host db msg_no_setdex_cli g (tp_speciesName tp) (tp_trainerName tp) = Inr ts"
    using assms(2) by (rule resolveOne_message_irrelevant)
  have layers: "\<And>d a b s. spread (spread (\<lambda>s. Some d) a) b s =
      Some (layered d (supplied a s) (supplied b s))"
    by (simp add: spread_def layered_def supplied_def map_add_def split: option.split)
  have layer: "\<And>d a s. spread (\<lambda>s. Some d) a s = Some (layered d (supplied a s) None)"
    by (simp add: spread_def layered_def supplied_def map_add_def split: option.split)
  show ?thesis
    using assms cli
    by (simp add: getPokemonOptions_def getPokemonOptions_cli_def require_name_def
        apply_trainerSet_def apply_trainerSet_cli_def truthy_str_def defaultIVs_def defaultEVs_def
        layers layer)
qed

text \<open>
  At the example: the explicit EV of speed (4) wins over the set's (252), the set's EV of
  HP (6) over the default, and the attack EV is the default.
\<close>

theorem stat_precedence_witness:
  "map_sum message (opt_ev SPE) (getPokemonOptions ex_host ex_setdex 8 (ex_raw ''Manectric'' ''Leader Wattson'')) = Inr (Some 4) \<and>
   map_sum message (opt_ev HP) (getPokemonOptions ex_host ex_setdex 8 (ex_raw ''Manectric'' ''Leader Wattson'')) = Inr (Some 6) \<and>
   map_sum message (opt_ev ATK) (getPokemonOptions ex_host ex_setdex 8 (ex_raw ''Manectric'' ''Leader Wattson'')) = Inr (Some 0) \<and>
   map_sum message (opt_iv ATK) (getPokemonOptions ex_host ex_setdex 8 (ex_raw ''Manectric'' ''Leader Wattson'')) = Inr (Some 0) \<and>
   map_sum message (opt_iv SPE) (getPokemonOptions ex_host ex_setdex 8 (ex_raw ''Manectric'' ''Leader Wattson'')) = Inr (Some 31) \<and>
   map_sum message (opt_ev HP) (getPokemonOptions_cli ex_host ex_setdex 8 (ex_raw ''Manectric'' ''Leader Wattson'')) = Inr (Some 6) \<and>
   map_sum message (opt_iv ATK) (getPokemonOptions_cli ex_host ex_setdex 8 (ex_raw ''Manectric'' ''Leader Wattson'')) = Inr (Some 31)"
proof -
  let ?raw = "ex_raw ''Manectric'' ''Leader Wattson''"
  let ?tp = "\<lparr> tp_speciesName = ''Manectric'', tp_trainerName = ''Leader Wattson'' \<rparr>"
  have res: "resolveOne ex_host ex_setdex msg_no_setdex 8 (tp_speciesName ?tp) (tp_trainerName ?tp) = Inr ex_wattson"
    by (simp add: ex_resolve_wattson)
  have name: "tp_speciesName ?tp \<noteq> []" by simp
  have sup: "supplied (set_evs ex_wattson) SPE = Some 252" "supplied (set_evs ex_wattson) HP = Some 6"
    "supplied (set_evs ex_wattson) ATK = None" "supplied (set_ivs ex_wattson) ATK = None"
    "supplied (set_ivs ex_wattson) SPE = None"
    "supplied (raw_evs ?raw) SPE = Some 4" "supplied (raw_evs ?raw) HP = None"
    "supplied (raw_evs ?raw) ATK = None" "supplied (raw_ivs ?raw) ATK = Some 0"
    "supplied (raw_ivs ?raw) SPE = None"
    by (simp_all add: supplied_def ex_wattson_def ex_raw_def)
  from stat_precedence[OF ex_raw_trainer res name]
  obtain a b where a: "getPokemonOptions ex_host ex_setdex 8 ?raw = Inr a"
     "\<forall>s. opt_ivs a s = Some (layered 31 (supplied (set_ivs ex_wattson) s) (supplied (raw_ivs ?raw) s))"
     "\<forall>s. opt_evs a s = Some (layered 0 (supplied (set_evs ex_wattson) s) (supplied (raw_evs ?raw) s))"
   and b: "getPokemonOptions_cli ex_host ex_setdex 8 ?raw = Inr b"
     "\<forall>s. opt_ivs b s = Some (layered 31 (supplied (set_ivs ex_wattson) s) None)"
     "\<forall>s. opt_evs b s = Some (layered 0 (supplied (set_evs ex_wattson) s) None)"
    by blast
  show ?thesis
    by (simp add: a b opt_ev_def opt_iv_def sup layered_def)
qed

text \<open>
  Claim C1 as written fails for \<^verbatim>\<open>cli_calc.js\<close>: the configuration supplies the speed EV 4,
  and the result has the set's 252.
\<close>

theorem stat_precedence_counterexample:
  "supplied (raw_evs (ex_raw ''Manectric'' ''Leader Wattson'')) SPE = Some 4 \<and>
   map_sum message (opt_ev SPE)
     (getPokemonOptions_cli ex_host ex_setdex 8 (ex_raw ''Manectric'' ''Leader Wattson'')) = Inr (Some 252)"
  by (simp add: getPokemonOptions_cli_def ex_resolve_wattson ex_raw_def require_name_def
      apply_trainerSet_cli_def truthy_str_def opt_ev_def spread_def ex_wattson_def supplied_def)

text \<open>
  Claim C4, as amended. With a trainer reference whose set is found, in
  \<^verbatim>\<open>graphql_server.js\<close> each of level, ability, item and nature is the value of the set when
  the set has a truthy one (a level other than 0, a string that is not empty), and
  otherwise the value of the first layer: for level and nature the explicit value if
  truthy, else the default 100 or "Serious"; the ability and the item as given. In
  \<^verbatim>\<open>cli_calc.js\<close> the explicit values are not read: level and nature are the set's when truthy
  and else the defaults, ability and item are those of the set, absent or not.
\<close>

theorem scalar_precedence:
  assumes "raw_trainerPokemon raw = Some tp"
    and "resolveOne host db msg_no_setdex g (tp_speciesName tp) (tp_trainerName tp) = Inr ts"
    and "tp_speciesName tp \<noteq> []"
  shows "(\<exists>opts. getPokemonOptions host db g raw = Inr opts \<and>
            opt_level opts =
              layered 100 (truthy_number (raw_level raw)) (truthy_number (set_level ts)) \<and>
            opt_ability opts =
              (case truthy_text (set_ability ts) of Some a \<Rightarrow> Some a | None \<Rightarrow> raw_ability raw) \<and>
            opt_item opts =
              (case truthy_text (set_item ts) of Some i \<Rightarrow> Some i | None \<Rightarrow> raw_item raw) \<and>
            opt_nature opts =
              layered ''Serious'' (truthy_text (raw_nature raw)) (truthy_text (set_nature ts))) \<and>
         (\<exists>opts. getPokemonOptions_cli host db g raw = Inr opts \<and>
            opt_level opts = layered 100 None (truthy_number (set_level ts)) \<and>
            opt_ability opts = set_ability ts \<and>
            opt_item opts = set_item ts \<and>
            opt_nature opts = layered ''Serious'' None (truthy_text (set_nature ts)))"
proof -
  have cli: "resolveOne host db msg_no_setdex_cli g (tp_speciesName tp) (tp_trainerName tp) = Inr ts"
    using assms(2) by (rule resolveOne_message_irrelevant)
  have level: "or_int a (or_int b d) = layered d (truthy_number b) (truthy_number a)"
      "or_int a d = layered d None (truthy_number a)" for a b d
    by (simp_all add: or_int_def layered_def truthy_number_def split: option.split)
  have nature: "or_str a (or_str b d) = layered d (truthy_text b) (truthy_text a)"
      "or_str a d = layered d None (truthy_text a)" for a b d
    by (simp_all add: or_str_def layered_def truthy_text_def split: option.split)
  have opt: "or_str_opt a b = (case truthy_text a of Some x \<Rightarrow> Some x | None \<Rightarrow> b)" for a b
    by (simp add: or_str_opt_def truthy_text_def split: option.split)
  have gql: "\<exists>opts. getPokemonOptions host db g raw = Inr opts \<and>
            opt_level opts = or_int (set_level ts) (or_int (raw_level raw) 100) \<and>
            opt_ability opts = or_str_opt (set_ability ts) (raw_ability raw) \<and>
            opt_item opts = or_str_opt (set_item ts) (raw_item raw) \<and>
            opt_nature opts = or_str (set_nature ts) (or_str (raw_nature raw) ''Serious'')"
    using assms
    by (simp add: getPokemonOptions_def require_name_def apply_trainerSet_def truthy_str_def
        base_options_def)
  have cmd: "\<exists>opts. getPokemonOptions_cli host db g raw = Inr opts \<and>
            opt_level opts = or_int (set_level ts) 100 \<and>
            opt_ability opts = set_ability ts \<and>
            opt_item opts = set_item ts \<and>
            opt_nature opts = or_str (set_nature ts) ''Serious''"
    using assms cli
    by (simp add: getPokemonOptions_cli_def require_name_def apply_trainerSet_cli_def
        truthy_str_def base_options_def)
  from gql[unfolded level(1) nature(1) opt] cmd[unfolded level(2) nature(2)]
  show ?thesis by (rule conjI)
qed

text \<open>
  At the examples: a set with level 5 and no ability and nature, and a set whose level
  is 0 and whose ability, item and nature are empty strings. In \<^verbatim>\<open>graphql_server.js\<close> the
  falsy values of the set give way to the explicit level 50, ability and item; in
  \<^verbatim>\<open>cli_calc.js\<close> to the default level 100, and the empty ability and item stay.
\<close>

theorem scalar_precedence_witness:
  "map_sum message opt_level (getPokemonOptions ex_host ex_setdex 8 (ex_raw ''Zigzagoon'' ''Calvin'')) = Inr 5 \<and>
   map_sum message opt_ability (getPokemonOptions ex_host ex_setdex 8 (ex_raw ''Zigzagoon'' ''Calvin'')) = Inr (Some ''Lightning Rod'') \<and>
   map_sum message opt_nature (getPokemonOptions ex_host ex_setdex 8 (ex_raw ''Zigzagoon'' ''Calvin'')) = Inr ''Serious'' \<and>
   map_sum message opt_level (getPokemonOptions_cli ex_host ex_setdex 8 (ex_raw ''Zigzagoon'' ''Calvin'')) = Inr 5 \<and>
   map_sum message opt_ability (getPokemonOptions_cli ex_host ex_setdex 8 (ex_raw ''Zigzagoon'' ''Calvin'')) = Inr None \<and>
   map_sum message opt_nature (getPokemonOptions_cli ex_host ex_setdex 8 (ex_raw ''Zigzagoon'' ''Calvin'')) = Inr ''Serious'' \<and>
   map_sum message opt_level (getPokemonOptions ex_host ex_setdex_falsy 8 (ex_raw ''Wurmple'' ''Rick'')) = Inr 50 \<and>
   map_sum message opt_ability (getPokemonOptions ex_host ex_setdex_falsy 8 (ex_raw ''Wurmple'' ''Rick'')) = Inr (Some ''Lightning Rod'') \<and>
   map_sum message opt_item (getPokemonOptions ex_host ex_setdex_falsy 8 (ex_raw ''Wurmple'' ''Rick'')) = Inr (Some ''Magnet'') \<and>
   map_sum message opt_nature (getPokemonOptions ex_host ex_setdex_falsy 8 (ex_raw ''Wurmple'' ''Rick'')) = Inr ''Serious'' \<and>
   map_sum message opt_level (getPokemonOptions_cli ex_host ex_setdex_falsy 8 (ex_raw ''Wurmple'' ''Rick'')) = Inr 100 \<and>
   map_sum message opt_ability (getPokemonOptions_cli ex_host ex_setdex_falsy 8 (ex_raw ''Wurmple'' ''Rick'')) = Inr (Some []) \<and>
   map_sum message opt_item (getPokemonOptions_cli ex_host ex_setdex_falsy 8 (ex_raw ''Wurmple'' ''Rick'')) = Inr (Some []) \<and>
   map_sum message opt_nature (getPokemonOptions_cli ex_host ex_setdex_falsy 8 (ex_raw ''Wurmple'' ''Rick'')) = Inr ''Serious''"
proof -
  let ?raw = "ex_raw ''Zigzagoon'' ''Calvin''"
  let ?tp = "\<lparr> tp_speciesName = ''Zigzagoon'', tp_trainerName = ''Calvin'' \<rparr>"
  let ?raw' = "ex_raw ''Wurmple'' ''Rick''"
  let ?tp' = "\<lparr> tp_speciesName = ''Wurmple'', tp_trainerName = ''Rick'' \<rparr>"
  have res: "resolveOne ex_host ex_setdex msg_no_setdex 8 (tp_speciesName ?tp) (tp_trainerName ?tp) = Inr ex_calvin"
    by (simp add: ex_resolve_calvin)
  have res': "resolveOne ex_host ex_setdex_falsy msg_no_setdex 8 (tp_speciesName ?tp') (tp_trainerName ?tp') = Inr ex_rick"
    by (simp add: ex_resolve_rick)
  have name: "tp_speciesName ?tp \<noteq> []" "tp_speciesName ?tp' \<noteq> []" by simp_all
  from scalar_precedence[OF ex_raw_trainer res name(1)]
  obtain a b where a: "getPokemonOptions ex_host ex_setdex 8 ?raw = Inr a"
     "opt_level a = layered 100 (truthy_number (raw_level ?raw)) (truthy_number (set_level ex_calvin))"
     "opt_ability a = (case truthy_text (set_ability ex_calvin) of Some a \<Rightarrow> Some a | None \<Rightarrow> raw_ability ?raw)"
     "opt_nature a = layered ''Serious'' (truthy_text (raw_nature ?raw)) (truthy_text (set_nature ex_calvin))"
   and b: "getPokemonOptions_cli ex_host ex_setdex 8 ?raw = Inr b"
     "opt_level b = layered 100 None (truthy_number (set_level ex_calvin))"
     "opt_ability b = set_ability ex_calvin"
     "opt_nature b = layered ''Serious'' None (truthy_text (set_nature ex_calvin))"
    by blast
  from scalar_precedence[OF ex_raw_trainer res' name(2)]
  obtain c d where c: "getPokemonOptions ex_host ex_setdex_falsy 8 ?raw' = Inr c"
     "opt_level c = layered 100 (truthy_number (raw_level ?raw')) (truthy_number (set_level ex_rick))"
     "opt_ability c = (case truthy_text (set_ability ex_rick) of Some a \<Rightarrow> Some a | None \<Rightarrow> raw_ability ?raw')"
     "opt_item c = (case truthy_text (set_item ex_rick) of Some i \<Rightarrow> Some i | None \<Rightarrow> raw_item ?raw')"
     "opt_nature c = layered ''Serious'' (truthy_text (raw_nature ?raw')) (truthy_text (set_nature ex_rick))"
   and d: "getPokemonOptions_cli ex_host ex_setdex_falsy 8 ?raw' = Inr d"
     "opt_level d = layered 100 None (truthy_number (set_level ex_rick))"
     "opt_ability d = set_ability ex_rick"
     "opt_item d = set_item ex_rick"
     "opt_nature d = layered ''Serious'' None (truthy_text (set_nature ex_rick))"
    by blast
  have raw: "raw_level (ex_raw s t) = Some 50" "raw_ability (ex_raw s t) = Some ''Lightning Rod''"
    "raw_item (ex_raw s t) = Some ''Magnet''" "raw_nature (ex_raw s t) = None" for s t
    by (simp_all add: ex_raw_def)
  show ?thesis
    by (simp add: a b c d raw layered_def truthy_number_def truthy_text_def ex_calvin_def
        ex_rick_def)
qed

text \<open>
  Claim C4 as written fails twice. In \<^verbatim>\<open>cli_calc.js\<close> the set has no item and the explicit
  item is lost. In \<^verbatim>\<open>graphql_server.js\<close> the set has the empty string as item and the
  explicit item is kept.
\<close>

theorem scalar_precedence_counterexample:
  "set_item ex_wattson = None \<and>
   raw_item (ex_raw ''Manectric'' ''Leader Wattson'') = Some ''Magnet'' \<and>
   map_sum message opt_item
     (getPokemonOptions_cli ex_host ex_setdex 8 (ex_raw ''Manectric'' ''Leader Wattson'')) = Inr None \<and>
   set_item ex_calvin = Some [] \<and>
   map_sum message opt_item
     (getPokemonOptions ex_host ex_setdex 8 (ex_raw ''Zigzagoon'' ''Calvin'')) = Inr (Some ''Magnet'')"
  by (simp add: getPokemonOptions_cli_def getPokemonOptions_def ex_resolve_wattson
      ex_resolve_calvin ex_raw_def require_name_def apply_trainerSet_cli_def apply_trainerSet_def
      base_options_def truthy_str_def or_str_opt_def ex_wattson_def ex_calvin_def)

text \<open>
  Claim C6. With a trainer reference whose set is found and an explicit list of moves,
  the moves are those of the set when the set has a list of moves, and the explicit
  list when it has none; in both files.
\<close>

theorem moves_replaced:
  assumes "raw_trainerPokemon raw = Some tp"
    and "resolveOne host db msg_no_setdex g (tp_speciesName tp) (tp_trainerName tp) = Inr ts"
    and "tp_speciesName tp \<noteq> []"
    and "raw_moves raw = Some explicit"
  shows "(\<exists>opts. getPokemonOptions host db g raw = Inr opts \<and>
            opt_moves opts = (case set_moves ts of Some ms \<Rightarrow> ms | None \<Rightarrow> explicit)) \<and>
         (\<exists>opts. getPokemonOptions_cli host db g raw = Inr opts \<and>
            opt_moves opts = (case set_moves ts of Some ms \<Rightarrow> ms | None \<Rightarrow> explicit))"
proof -
  have cli: "resolveOne host db msg_no_setdex_cli g (tp_speciesName tp) (tp_trainerName tp) = Inr ts"
    using assms(2) by (rule resolveOne_message_irrelevant)
  show ?thesis
    using assms cli
    by (simp add: getPokemonOptions_def getPokemonOptions_cli_def require_name_def
        apply_trainerSet_def apply_trainerSet_cli_def truthy_str_def base_options_def or_obj_def
        split: option.split)
qed

theorem moves_replaced_witness:
  "map_sum message opt_moves (getPokemonOptions ex_host ex_setdex 8 (ex_raw ''Manectric'' ''Leader Wattson'')) = Inr [''Thunderbolt'', ''Thunder Wave''] \<and>
   map_sum message opt_moves (getPokemonOptions_cli ex_host ex_setdex 8 (ex_raw ''Manectric'' ''Leader Wattson'')) = Inr [''Thunderbolt'', ''Thunder Wave''] \<and>
   map_sum message opt_moves (getPokemonOptions ex_host ex_setdex 8 (ex_raw ''Zigzagoon'' ''Calvin'')) = Inr [''Spark''] \<and>
   map_sum message opt_moves (getPokemonOptions_cli ex_host ex_setdex 8 (ex_raw ''Zigzagoon'' ''Calvin'')) = Inr [''Spark'']"
proof -
  let ?w = "\<lparr> tp_speciesName = ''Manectric'', tp_trainerName = ''Leader Wattson'' \<rparr>"
  let ?c = "\<lparr> tp_speciesName = ''Zigzagoon'', tp_trainerName = ''Calvin'' \<rparr>"
  have w: "resolveOne ex_host ex_setdex msg_no_setdex 8 (tp_speciesName ?w) (tp_trainerName ?w) = Inr ex_wattson"
    by (simp add: ex_resolve_wattson)
  have c: "resolveOne ex_host ex_setdex msg_no_setdex 8 (tp_speciesName ?c) (tp_trainerName ?c) = Inr ex_calvin"
    by (simp add: ex_resolve_calvin)
  have moves: "\<And>s t. raw_moves (ex_raw s t) = Some [''Spark'']"
    by (simp add: ex_raw_def)
  have "tp_speciesName ?w \<noteq> []" by simp
  from moves_replaced[OF ex_raw_trainer w this moves]
  have 1: "map_sum message opt_moves (getPokemonOptions ex_host ex_setdex 8 (ex_raw ''Manectric'' ''Leader Wattson'')) = Inr [''Thunderbolt'', ''Thunder Wave'']"
    "map_sum message opt_moves (getPokemonOptions_cli ex_host ex_setdex 8 (ex_raw ''Manectric'' ''Leader Wattson'')) = Inr [''Thunderbolt'', ''Thunder Wave'']"
    by (auto simp: ex_wattson_def)
  have "tp_speciesName ?c \<noteq> []" by simp
  from moves_replaced[OF ex_raw_trainer c this moves]
  have 2: "map_sum message opt_moves (getPokemonOptions ex_host ex_setdex 8 (ex_raw ''Zigzagoon'' ''Calvin'')) = Inr [''Spark'']"
    "map_sum message opt_moves (getPokemonOptions_cli ex_host ex_setdex 8 (ex_raw ''Zigzagoon'' ''Calvin'')) = Inr [''Spark'']"
    by (auto simp: ex_calvin_def)
  from 1 2 show ?thesis by simp
qed

section \<open>Claims about trainer names with syntax characters\<close>

text \<open>
  Claim C2, at the input where the code fails it. The set name "Youngster Calvin (1)"
  contains the trainer name "Calvin (1" as a whole word, so the claim has the resolver
  return that set. The code hands the name to the regular expression constructor
  as it is, and the constructor throws.
\<close>

theorem strong_match_not_returned:
  "strong_match ''Calvin (1'' (''Youngster Calvin (1)'', ex_calvin) \<and>
   resolveOne ex_host ex_setdex msg_no_setdex 8 ''Zigzagoon'' ''Calvin (1'' =
     Inl (SyntaxError (''Invalid regular expression: /'' @ word_pattern ''Calvin (1'' @
                       ''/i: Unterminated group'')) \<and>
   getPokemonOptions ex_host ex_setdex 8 (ex_raw ''Zigzagoon'' ''Calvin (1'') =
     Inl (SyntaxError (''Invalid regular expression: /'' @ word_pattern ''Calvin (1'' @
                       ''/i: Unterminated group'')) \<and>
   getPokemonOptions_cli ex_host ex_setdex 8 (ex_raw ''Zigzagoon'' ''Calvin (1'') =
     Inl (SyntaxError (''Invalid regular expression: /'' @ word_pattern ''Calvin (1'' @
                       ''/i: Unterminated group''))"
proof -
  have "regexp_test (WordBoundary # map PatternChar ''Calvin (1'' @ [WordBoundary])
          ''Youngster Calvin (1)''"
    by code_simp
  then have strong: "strong_match ''Calvin (1'' (''Youngster Calvin (1)'', ex_calvin)"
    by (simp only: strong_match_def regexp_test_word fst_conv simp_thms)
  have db: "ex_setdex 8 = Some [(''Manectric'', [(''Leader Wattson'', ex_wattson)]),
              (''Zigzagoon'', [(''Youngster Calvin (1)'', ex_calvin)])]"
    by (simp add: ex_setdex_def)
  have sets: "map_of [(''Manectric'', [(''Leader Wattson'', ex_wattson)]),
              (''Zigzagoon'', [(''Youngster Calvin (1)'', ex_calvin)])] ''Zigzagoon'' =
           Some [(''Youngster Calvin (1)'', ex_calvin)]"
    by simp
  note res = resolveOne_syntax_error[of ex_setdex 8, OF db sets unterminated_calvin]
  show ?thesis
    using strong res by (simp add: getPokemonOptions_def getPokemonOptions_cli_def ex_raw_def)
qed

text \<open>
  Claim C10. A trainer name that leaves a group open makes \<open>resolveOne\<close> throw the
  syntax error of the constructor, for every species that has a set, where
  \<^verbatim>\<open>getTrainerPokemonSets\<close> returns the sets that contain the name as a whole word.
\<close>

theorem unescaped_name_raises:
  assumes "db g = Some setdex"
    and "map_of setdex species = Some (entry # rest)"
    and "group_error (word_pattern name) False False 0 = Some m"
  shows "resolveOne host db msg g species name =
           Inl (SyntaxError (''Invalid regular expression: /'' @ word_pattern name @ ''/i: '' @ m)) \<and>
         getTrainerPokemonSets host db g name =
           Inr (concat (map (\<lambda>(species, sets).
                  map (listed_set species) (filter (strong_match name) sets)) setdex))"
  using resolveOne_syntax_error[of db g, OF assms] getTrainerPokemonSets_returns[of db g, OF assms(1)]
  by simp

theorem unescaped_name_raises_witness:
  "resolveOne ex_host ex_setdex msg_no_setdex 8 ''Zigzagoon'' ''('' =
     Inl (SyntaxError (''Invalid regular expression: /'' @ word_pattern ''('' @
                       ''/i: Unterminated group'')) \<and>
   getTrainerPokemonSets ex_host ex_setdex 8 ''('' = Inr []"
proof -
  have db: "ex_setdex 8 = Some [(''Manectric'', [(''Leader Wattson'', ex_wattson)]),
              (''Zigzagoon'', [(''Youngster Calvin (1)'', ex_calvin)])]"
    by (simp add: ex_setdex_def)
  have sets: "map_of [(''Manectric'', [(''Leader Wattson'', ex_wattson)]),
              (''Zigzagoon'', [(''Youngster Calvin (1)'', ex_calvin)])] ''Zigzagoon'' =
           Some [(''Youngster Calvin (1)'', ex_calvin)]"
    by simp
  have err: "group_error (word_pattern ''('') False False 0 = Some ''Unterminated group''"
    by code_simp
  have "\<not> regexp_test (WordBoundary # map PatternChar ''('' @ [WordBoundary]) ''Leader Wattson''"
       "\<not> regexp_test (WordBoundary # map PatternChar ''('' @ [WordBoundary]) ''Youngster Calvin (1)''"
    by code_simp+
  then have no: "\<not> strong_match ''('' (''Leader Wattson'', ex_wattson)"
      "\<not> strong_match ''('' (''Youngster Calvin (1)'', ex_calvin)"
    by (simp_all add: strong_match_def regexp_test_word[symmetric] ex_wattson_def ex_calvin_def)
  from unescaped_name_raises[of ex_setdex 8, OF db sets err] no
  show ?thesis by simp
qed

section \<open>Claims about the formatter\<close>

lemma ex_engine_sel:
  "new_Move ex_engine g name crit = Inr (name, crit)"
  "m_bp ex_engine m = (if fst m = ''Swords Dance'' then Some 0 else Some 80)"
  "m_name ex_engine m = fst m"
  "calculate ex_engine g a d m f =
     (if fst m = ''Sky Drop'' then Inl (Error ''Sky Drop is not supported'')
      else Inr (if snd m then (102, 121) else (68, 81)))"
  "r_range ex_engine r = Inr r"
  "r_kochance_text ex_engine r = Inr ''possible 5HKO''"
  "r_desc ex_engine r = Inr ''Garchomp Dragon Claw vs. Corviknight''"
  "maxHP ex_engine p = Inr 402"
  "p_name ex_engine p = p"
  by (simp_all add: ex_engine_def)

text \<open>
  Claim C7. When the constructed move has base power 0, \<^verbatim>\<open>getFormattedResult\<close> calls the
  engine for the construction of the move only, never \<^verbatim>\<open>calculate\<close>, and returns the
  damage range [0,0], the percentage range [0,0], the text "No damaging effect" and a
  description that says the move is non-damaging; the description for a critical hit
  is a different one. This holds for both values of \<open>isCrit\<close>.
\<close>

theorem status_move:
  assumes "new_Move eng gen moveName isCrit = Inr move"
    and "m_bp eng move = Some 0"
  shows "getFormattedResult eng gen attacker defender moveName field isCrit =
           ([NewMove moveName isCrit],
            Inr \<lparr> damageRange = (0, 0),
                  percentageRange = (Num 0, Num 0),
                  koChance = ''No damaging effect'',
                  description = m_name eng move @
                    (if isCrit then '' is a non-damaging move, so it cannot critically hit.''
                     else '' is a non-damaging move.'') \<rparr>) \<and>
         m_name eng move @ '' is a non-damaging move, so it cannot critically hit.'' \<noteq>
         m_name eng move @ '' is a non-damaging move.''"
  using assms by (simp add: getFormattedResult_def)

theorem status_move_witness:
  "getFormattedResult ex_engine 9 ''Garchomp'' ''Corviknight'' ''Swords Dance'' () False =
     ([NewMove ''Swords Dance'' False],
      Inr \<lparr> damageRange = (0, 0), percentageRange = (Num 0, Num 0),
            koChance = ''No damaging effect'',
            description = ''Swords Dance is a non-damaging move.'' \<rparr>) \<and>
   getFormattedResult ex_engine 9 ''Garchomp'' ''Corviknight'' ''Swords Dance'' () True =
     ([NewMove ''Swords Dance'' True],
      Inr \<lparr> damageRange = (0, 0), percentageRange = (Num 0, Num 0),
            koChance = ''No damaging effect'',
            description = ''Swords Dance is a non-damaging move, so it cannot critically hit.'' \<rparr>)"
proof -
  have m: "new_Move ex_engine 9 ''Swords Dance'' c = Inr (''Swords Dance'', c)" for c
    by (simp add: ex_engine_sel)
  have bp: "m_bp ex_engine (''Swords Dance'', c) = Some 0" for c
    by (simp add: ex_engine_sel)
  from status_move[OF m[of False] bp[of False],
         where attacker = "''Garchomp''" and defender = "''Corviknight''" and field = "()"]
       status_move[OF m[of True] bp[of True],
         where attacker = "''Garchomp''" and defender = "''Corviknight''" and field = "()"]
  show ?thesis by (simp add: ex_engine_sel)
qed

text \<open>
  Claim C8. When \<^verbatim>\<open>calculate\<close> throws, \<^verbatim>\<open>getFormattedResult\<close> returns (it does not throw) the
  damage range [0,0], the percentage range [0,0], the text "Calculation Error / No
  effect" and a description that ends with the message of the error.
\<close>

theorem calculation_error_caught:
  assumes "new_Move eng gen moveName isCrit = Inr move"
    and "m_bp eng move \<noteq> Some 0"
    and "calculate eng gen attacker defender move field = Inl e"
  shows "getFormattedResult eng gen attacker defender moveName field isCrit =
           ([NewMove moveName isCrit, Calculate gen attacker defender move field],
            Inr \<lparr> damageRange = (0, 0),
                  percentageRange = (Num 0, Num 0),
                  koChance = ''Calculation Error / No effect'',
                  description = m_name eng move @ '' could not be calculated: '' @ message e \<rparr>)"
  using assms by (simp add: getFormattedResult_def try_block_def)

theorem calculation_error_caught_witness:
  "getFormattedResult ex_engine 9 ''Garchomp'' ''Corviknight'' ''Sky Drop'' () False =
     ([NewMove ''Sky Drop'' False, Calculate 9 ''Garchomp'' ''Corviknight'' (''Sky Drop'', False) ()],
      Inr \<lparr> damageRange = (0, 0), percentageRange = (Num 0, Num 0),
            koChance = ''Calculation Error / No effect'',
            description = ''Sky Drop could not be calculated: Sky Drop is not supported'' \<rparr>)"
proof -
  have m: "new_Move ex_engine 9 ''Sky Drop'' False = Inr (''Sky Drop'', False)"
    by (simp add: ex_engine_sel)
  have bp: "m_bp ex_engine (''Sky Drop'', False) \<noteq> Some 0"
    by (simp add: ex_engine_sel)
  have c: "calculate ex_engine 9 ''Garchomp'' ''Corviknight'' (''Sky Drop'', False) () =
      Inl (Error ''Sky Drop is not supported'')"
    by (simp add: ex_engine_sel)
  from calculation_error_caught[OF m bp c]
  show ?thesis by (simp add: ex_engine_sel)
qed

text \<open>The percentage in whole tenths, and as a truncation.\<close>

lemma percentage_div:
  assumes "hp \<noteq> 0"
  shows "percentage damage hp = Num (of_int (damage * 1000 div hp) / 10)"
  using assms by (simp only: percentage_def floor_divide_of_int_eq if_False)

lemma truncate_tenth_div:
  assumes "0 \<le> damage" and "0 < hp"
  shows "truncate_tenth (100 * of_int damage / of_int hp) = of_int (damage * 1000 div hp) / 10"
proof -
  have "(100 * of_int damage / of_int hp :: rat) * 10 = of_int (damage * 1000) / of_int hp"
    by simp
  then have "\<lfloor>(100 * of_int damage / of_int hp :: rat) * 10\<rfloor> = damage * 1000 div hp"
    by (simp only: floor_divide_of_int_eq)
  moreover have "(0::rat) \<le> 100 * of_int damage / of_int hp"
    using assms by simp
  ultimately show ?thesis
    by (simp only: truncate_tenth_def if_True)
qed

text \<open>
  Claim C9. When the engine returns a result whose maximum damage is not 0, for a
  defender whose hit points are not 0, each percentage is floor(damage * 1000 / maxHP)
  / 10; for a damage of at least 0 and hit points above 0 that is the exact percentage
  cut to one decimal place toward zero. Damage 81 of 402 hit points gives 20.1 and not
  20.2.
\<close>

theorem percentage_truncated:
  assumes "new_Move eng gen moveName isCrit = Inr move"
    and "m_bp eng move \<noteq> Some 0"
    and "calculate eng gen attacker defender move field = Inr result"
    and "r_range eng result = Inr (dmgMin, dmgMax)"
    and "dmgMax \<noteq> 0"
    and "maxHP eng defender = Inr hp" and "hp \<noteq> 0"
    and "r_kochance_text eng result = Inr ko"
    and "r_desc eng result = Inr d"
  shows "snd (getFormattedResult eng gen attacker defender moveName field isCrit) =
           Inr \<lparr> damageRange = (dmgMin, dmgMax),
                 percentageRange =
                   (Num (of_int \<lfloor>(of_int (dmgMin * 1000) :: rat) / of_int hp\<rfloor> / 10),
                    Num (of_int \<lfloor>(of_int (dmgMax * 1000) :: rat) / of_int hp\<rfloor> / 10)),
                 koChance = ko,
                 description = d \<rparr> \<and>
         (0 < hp \<and> 0 \<le> dmgMin \<longrightarrow>
            of_int \<lfloor>(of_int (dmgMin * 1000) :: rat) / of_int hp\<rfloor> / 10 =
              truncate_tenth (100 * of_int dmgMin / of_int hp)) \<and>
         (0 < hp \<and> 0 < dmgMax \<longrightarrow>
            of_int \<lfloor>(of_int (dmgMax * 1000) :: rat) / of_int hp\<rfloor> / 10 =
              truncate_tenth (100 * of_int dmgMax / of_int hp)) \<and>
         percentage 81 402 = Num (201 / 10) \<and> percentage 81 402 \<noteq> Num (202 / 10)"
proof -
  have result: "snd (getFormattedResult eng gen attacker defender moveName field isCrit) =
           Inr \<lparr> damageRange = (dmgMin, dmgMax),
                 percentageRange = (percentage dmgMin hp, percentage dmgMax hp),
                 koChance = ko,
                 description = d \<rparr>"
    using assms by (simp add: getFormattedResult_def try_block_def)
  have floor: "percentage x hp = Num (of_int \<lfloor>(of_int (x * 1000) :: rat) / of_int hp\<rfloor> / 10)" for x
    using assms(7) by (simp add: percentage_def)
  have trunc: "of_int \<lfloor>(of_int (x * 1000) :: rat) / of_int hp\<rfloor> / 10 =
      truncate_tenth (100 * of_int x / of_int hp)" if "0 \<le> x" "0 < hp" for x
    using that by (simp only: truncate_tenth_div floor_divide_of_int_eq)
  have example: "percentage 81 402 = Num (201 / 10)"
    by (simp add: percentage_div)
  show ?thesis
    using result floor trunc[of dmgMin] trunc[of dmgMax] example by simp
qed

theorem percentage_truncated_witness:
  "snd (getFormattedResult ex_engine 9 ''Garchomp'' ''Corviknight'' ''Dragon Claw'' () False) =
     Inr \<lparr> damageRange = (68, 81), percentageRange = (Num (169 / 10), Num (201 / 10)),
           koChance = ''possible 5HKO'',
           description = ''Garchomp Dragon Claw vs. Corviknight'' \<rparr> \<and>
   truncate_tenth (100 * of_int 81 / of_int 402) = 201 / 10"
proof -
  have m: "new_Move ex_engine 9 ''Dragon Claw'' False = Inr (''Dragon Claw'', False)"
    by (simp add: ex_engine_sel)
  have bp: "m_bp ex_engine (''Dragon Claw'', False) \<noteq> Some 0"
    by (simp add: ex_engine_sel)
  have c: "calculate ex_engine 9 ''Garchomp'' ''Corviknight'' (''Dragon Claw'', False) () = Inr (68, 81)"
    by (simp add: ex_engine_sel)
  have r: "r_range ex_engine (68, 81) = Inr (68, 81)"
    by (simp add: ex_engine_sel)
  have hp: "maxHP ex_engine ''Corviknight'' = Inr 402"
    by (simp add: ex_engine_sel)
  have ko: "r_kochance_text ex_engine (68, 81) = Inr ''possible 5HKO''"
    by (simp add: ex_engine_sel)
  have d: "r_desc ex_engine (68, 81) = Inr ''Garchomp Dragon Claw vs. Corviknight''"
    by (simp add: ex_engine_sel)
  have t: "(of_int \<lfloor>(of_int (68 * 1000) :: rat) / of_int 402\<rfloor> :: rat) / 10 = 169 / 10"
    "(of_int \<lfloor>(of_int (81 * 1000) :: rat) / of_int 402\<rfloor> :: rat) / 10 = 201 / 10"
    by (simp_all only: floor_divide_of_int_eq) simp_all
  have ne: "(81::int) \<noteq> 0" "(402::int) \<noteq> 0" by simp_all
  have pos: "(0::int) < 402 \<and> (0::int) < 81" by simp
  from percentage_truncated[OF m bp c r ne(1) hp ne(2) ko d]
  have "snd (getFormattedResult ex_engine 9 ''Garchomp'' ''Corviknight'' ''Dragon Claw'' () False) =
           Inr \<lparr> damageRange = (68, 81),
                 percentageRange =
                   (Num (of_int \<lfloor>(of_int (68 * 1000) :: rat) / of_int 402\<rfloor> / 10),
                    Num (of_int \<lfloor>(of_int (81 * 1000) :: rat) / of_int 402\<rfloor> / 10)),
                 koChance = ''possible 5HKO'',
                 description = ''Garchomp Dragon Claw vs. Corviknight'' \<rparr>"
    and "of_int \<lfloor>(of_int (81 * 1000) :: rat) / of_int 402\<rfloor> / 10 =
              truncate_tenth (100 * of_int 81 / of_int 402)"
    using pos by blast+
  then show ?thesis
    by (simp only: t simp_thms)
qed

section \<open>Claims about the two directions\<close>

lemma and_then_Inr: "and_then (t, Inr x) f = (t @ fst (f x), snd (f x))"
  by (simp add: and_then_def split: prod.split)

lemma and_then_return:
  "and_then m (\<lambda>x. ([], Inr (f x))) = (fst m, map_sum id f (snd m))"
  by (cases m; cases "snd m") (simp_all add: and_then_def)




lemma attack_direction_no_moves:
  "attack_direction no_moves eng gen attacker defender [] fo =
     ([], Inr \<lparr> adr_message = Some (p_name eng attacker @ '' has no moves to calculate.''),
                 adr_attacker = summary eng attacker,
                 adr_defender = summary eng defender,
                 adr_moves = no_moves \<rparr>)"
  by (simp add: attack_direction_def)

text \<open>After the two combatants are constructed, a request is its two directions.\<close>

lemma calculateDamage_directions:
  assumes "Generations_get eng (or_int (in_generation options) 9) = Inr gen"
    and "getPokemonOptions host db (gen_num eng gen) (in_pokemon1 options) = Inr o1"
    and "getPokemonOptions host db (gen_num eng gen) (in_pokemon2 options) = Inr o2"
    and "new_Pokemon eng gen (opt_name o1) o1 = Inr p1"
    and "new_Pokemon eng gen (opt_name o2) o2 = Inr p2"
  shows "calculateDamage eng host db options =
     (case and_then
        (attack_direction (Some []) eng gen p1 p2 (opt_moves o1)
           (field12 (or_obj (in_field options) no_field) options)) (\<lambda>d12.
      and_then
        (attack_direction (Some []) eng gen p2 p1 (opt_moves o2)
           (field21 (or_obj (in_field options) no_field) options)) (\<lambda>d21.
        ([], Inr \<lparr> generation = gen_num eng gen,
                    pokemon1 = summary eng p1,
                    pokemon2 = summary eng p2,
                    pokemon1AttackingPokemon2 = d12,
                    pokemon2AttackingPokemon1 = d21 \<rparr>))) of
        (calls, r) \<Rightarrow>
          (GetGeneration (or_int (in_generation options) 9) # NewPokemon (opt_name o1) #
           NewPokemon (opt_name o2) # calls, r))"
  using assms
  by (simp add: calculateDamage_def and_then_Inr split: prod.split)

lemma cli_try_directions:
  assumes "getPokemonOptions_cli host db (gen_num eng gen) (in_pokemon1 options) = Inr o1"
    and "getPokemonOptions_cli host db (gen_num eng gen) (in_pokemon2 options) = Inr o2"
    and "new_Pokemon eng gen (opt_name o1) o1 = Inr p1"
    and "new_Pokemon eng gen (opt_name o2) o2 = Inr p2"
  shows "cli_try eng host db gen options =
     (case and_then
        (attack_direction None eng gen p1 p2 (opt_moves o1)
           (field12 (cli_fieldOptions (in_field options)) options)) (\<lambda>d12.
      and_then
        (attack_direction None eng gen p2 p1 (opt_moves o2)
           (field21 (cli_fieldOptions (in_field options)) options)) (\<lambda>d21.
        ([], Inr \<lparr> cli_pokemon1AttackingPokemon2 = d12,
                    cli_pokemon2AttackingPokemon1 = d21 \<rparr>))) of
        (calls, r) \<Rightarrow> (NewPokemon (opt_name o1) # NewPokemon (opt_name o2) # calls, r))"
  using assms
  by (simp add: cli_try_def and_then_Inr split: prod.split)

lemma calculateDamageCLI_try:
  assumes "Generations_get eng (or_int (in_generation options) 9) = Inr gen"
  shows "calculateDamageCLI eng host db options =
     (GetGeneration (or_int (in_generation options) 9) # fst (cli_try eng host db gen options),
      Inr (case snd (cli_try eng host db gen options) of
             Inl error \<Rightarrow> ErrorLogged (message error)
           | Inr results \<Rightarrow> Logged results))"
  using assms
  by (cases "cli_try eng host db gen options"; cases "snd (cli_try eng host db gen options)")
     (simp_all add: calculateDamageCLI_def and_then_Inr)

text \<open>The example data.\<close>

lemma ex_direct_options:
  assumes "name \<noteq> []"
  shows "getPokemonOptions host db g (ex_direct name moves) = Inr (base_options (ex_direct name moves))"
    and "getPokemonOptions_cli host db g (ex_direct name moves) = Inr (base_options (ex_direct name moves))"
    and "opt_name (base_options (ex_direct name moves)) = Some name"
    and "opt_moves (base_options (ex_direct name moves)) = or_obj moves []"
  using assms
  by (simp_all add: getPokemonOptions_def getPokemonOptions_cli_def ex_direct_def require_name_def
      base_options_def truthy_str_def)

lemma ex_engine_setup:
  "Generations_get ex_engine (or_int (in_generation (ex_input m1 m2)) 9) = Inr 9"
  "gen_num ex_engine g = g"
  "new_Pokemon ex_engine g (Some name) opts = Inr name"
  "\<forall>fo. \<not> isl (new_Field ex_engine fo)"
  "in_pokemon1 (ex_input m1 m2) = ex_direct ''Garchomp'' m1"
  "in_pokemon2 (ex_input m1 m2) = ex_direct ''Corviknight'' m2"
  by (simp_all add: ex_engine_def ex_input_def or_int_def)




text \<open>
  Claim C5, as amended. When the merged move list of one combatant is empty, the
  result of its direction has the message "<name> has no moves to calculate.", which
  is not empty, and the engine is not called for that direction: the calls of the
  request are those of the set-up and of the other direction, and the outcome of the
  request is that of the other direction. In \<^verbatim>\<open>graphql_server.js\<close> the result of the
  direction has an empty move list; in \<^verbatim>\<open>cli_calc.js\<close> it has no move list at all.
\<close>

theorem no_moves_direction:
  assumes gen: "Generations_get eng (or_int (in_generation options) 9) = Inr gen"
  shows "(\<forall>o1 o2 p1 p2.
            getPokemonOptions host db (gen_num eng gen) (in_pokemon1 options) = Inr o1 \<and>
            getPokemonOptions host db (gen_num eng gen) (in_pokemon2 options) = Inr o2 \<and>
            new_Pokemon eng gen (opt_name o1) o1 = Inr p1 \<and>
            new_Pokemon eng gen (opt_name o2) o2 = Inr p2 \<longrightarrow>
            (opt_moves o1 = [] \<longrightarrow>
               calculateDamage eng host db options =
                 (GetGeneration (or_int (in_generation options) 9) # NewPokemon (opt_name o1) #
                  NewPokemon (opt_name o2) #
                  fst (attack_direction (Some []) eng gen p2 p1 (opt_moves o2)
                         (field21 (or_obj (in_field options) no_field) options)),
                  map_sum id (\<lambda>d21.
                      \<lparr> generation = gen_num eng gen,
                        pokemon1 = summary eng p1,
                        pokemon2 = summary eng p2,
                        pokemon1AttackingPokemon2 = no_moves_result eng p1 p2 (Some []),
                        pokemon2AttackingPokemon1 = d21 \<rparr>)
                    (snd (attack_direction (Some []) eng gen p2 p1 (opt_moves o2)
                            (field21 (or_obj (in_field options) no_field) options))))) \<and>
            (opt_moves o2 = [] \<longrightarrow>
               calculateDamage eng host db options =
                 (GetGeneration (or_int (in_generation options) 9) # NewPokemon (opt_name o1) #
                  NewPokemon (opt_name o2) #
                  fst (attack_direction (Some []) eng gen p1 p2 (opt_moves o1)
                         (field12 (or_obj (in_field options) no_field) options)),
                  map_sum id (\<lambda>d12.
                      \<lparr> generation = gen_num eng gen,
                        pokemon1 = summary eng p1,
                        pokemon2 = summary eng p2,
                        pokemon1AttackingPokemon2 = d12,
                        pokemon2AttackingPokemon1 = no_moves_result eng p2 p1 (Some []) \<rparr>)
                    (snd (attack_direction (Some []) eng gen p1 p2 (opt_moves o1)
                            (field12 (or_obj (in_field options) no_field) options)))))) \<and>
         (\<forall>o1 o2 p1 p2.
            getPokemonOptions_cli host db (gen_num eng gen) (in_pokemon1 options) = Inr o1 \<and>
            getPokemonOptions_cli host db (gen_num eng gen) (in_pokemon2 options) = Inr o2 \<and>
            new_Pokemon eng gen (opt_name o1) o1 = Inr p1 \<and>
            new_Pokemon eng gen (opt_name o2) o2 = Inr p2 \<longrightarrow>
            (opt_moves o1 = [] \<longrightarrow>
               calculateDamageCLI eng host db options =
                 (GetGeneration (or_int (in_generation options) 9) # NewPokemon (opt_name o1) #
                  NewPokemon (opt_name o2) #
                  fst (attack_direction None eng gen p2 p1 (opt_moves o2)
                         (field21 (cli_fieldOptions (in_field options)) options)),
                  Inr (case snd (attack_direction None eng gen p2 p1 (opt_moves o2)
                                   (field21 (cli_fieldOptions (in_field options)) options)) of
                         Inl error \<Rightarrow> ErrorLogged (message error)
                       | Inr d21 \<Rightarrow>
                           Logged \<lparr> cli_pokemon1AttackingPokemon2 = no_moves_result eng p1 p2 None,
                                    cli_pokemon2AttackingPokemon1 = d21 \<rparr>))) \<and>
            (opt_moves o2 = [] \<longrightarrow>
               calculateDamageCLI eng host db options =
                 (GetGeneration (or_int (in_generation options) 9) # NewPokemon (opt_name o1) #
                  NewPokemon (opt_name o2) #
                  fst (attack_direction None eng gen p1 p2 (opt_moves o1)
                         (field12 (cli_fieldOptions (in_field options)) options)),
                  Inr (case snd (attack_direction None eng gen p1 p2 (opt_moves o1)
                                   (field12 (cli_fieldOptions (in_field options)) options)) of
                         Inl error \<Rightarrow> ErrorLogged (message error)
                       | Inr d12 \<Rightarrow>
                           Logged \<lparr> cli_pokemon1AttackingPokemon2 = d12,
                                    cli_pokemon2AttackingPokemon1 = no_moves_result eng p2 p1 None \<rparr>)))) \<and>
         adr_moves (no_moves_result eng attacker defender no_moves) = no_moves \<and>
         adr_message (no_moves_result eng attacker defender no_moves) =
           Some (p_name eng attacker @ '' has no moves to calculate.'') \<and>
         p_name eng attacker @ '' has no moves to calculate.'' \<noteq> []"
proof (intro conjI allI impI)
  fix o1 o2 p1 p2
  assume pre:
    "getPokemonOptions host db (gen_num eng gen) (in_pokemon1 options) = Inr o1 \<and>
     getPokemonOptions host db (gen_num eng gen) (in_pokemon2 options) = Inr o2 \<and>
     new_Pokemon eng gen (opt_name o1) o1 = Inr p1 \<and>
     new_Pokemon eng gen (opt_name o2) o2 = Inr p2"
  then have s: "getPokemonOptions host db (gen_num eng gen) (in_pokemon1 options) = Inr o1"
    "getPokemonOptions host db (gen_num eng gen) (in_pokemon2 options) = Inr o2"
    "new_Pokemon eng gen (opt_name o1) o1 = Inr p1"
    "new_Pokemon eng gen (opt_name o2) o2 = Inr p2"
    by simp_all
  note d = calculateDamage_directions[OF gen s]
  {
    assume "opt_moves o1 = []"
    then show "calculateDamage eng host db options =
       (GetGeneration (or_int (in_generation options) 9) # NewPokemon (opt_name o1) #
        NewPokemon (opt_name o2) #
        fst (attack_direction (Some []) eng gen p2 p1 (opt_moves o2)
               (field21 (or_obj (in_field options) no_field) options)),
        map_sum id (\<lambda>d21.
            \<lparr> generation = gen_num eng gen,
              pokemon1 = summary eng p1,
              pokemon2 = summary eng p2,
              pokemon1AttackingPokemon2 = no_moves_result eng p1 p2 (Some []),
              pokemon2AttackingPokemon1 = d21 \<rparr>)
          (snd (attack_direction (Some []) eng gen p2 p1 (opt_moves o2)
                  (field21 (or_obj (in_field options) no_field) options))))"
      by (simp add: d attack_direction_no_moves and_then_Inr and_then_return no_moves_result_def)
  }
  {
    assume "opt_moves o2 = []"
    then show "calculateDamage eng host db options =
       (GetGeneration (or_int (in_generation options) 9) # NewPokemon (opt_name o1) #
        NewPokemon (opt_name o2) #
        fst (attack_direction (Some []) eng gen p1 p2 (opt_moves o1)
               (field12 (or_obj (in_field options) no_field) options)),
        map_sum id (\<lambda>d12.
            \<lparr> generation = gen_num eng gen,
              pokemon1 = summary eng p1,
              pokemon2 = summary eng p2,
              pokemon1AttackingPokemon2 = d12,
              pokemon2AttackingPokemon1 = no_moves_result eng p2 p1 (Some []) \<rparr>)
          (snd (attack_direction (Some []) eng gen p1 p2 (opt_moves o1)
                  (field12 (or_obj (in_field options) no_field) options))))"
      by (simp add: d attack_direction_no_moves and_then_Inr and_then_return no_moves_result_def)
  }
next
  fix o1 o2 p1 p2
  assume pre:
    "getPokemonOptions_cli host db (gen_num eng gen) (in_pokemon1 options) = Inr o1 \<and>
     getPokemonOptions_cli host db (gen_num eng gen) (in_pokemon2 options) = Inr o2 \<and>
     new_Pokemon eng gen (opt_name o1) o1 = Inr p1 \<and>
     new_Pokemon eng gen (opt_name o2) o2 = Inr p2"
  then have s: "getPokemonOptions_cli host db (gen_num eng gen) (in_pokemon1 options) = Inr o1"
    "getPokemonOptions_cli host db (gen_num eng gen) (in_pokemon2 options) = Inr o2"
    "new_Pokemon eng gen (opt_name o1) o1 = Inr p1"
    "new_Pokemon eng gen (opt_name o2) o2 = Inr p2"
    by simp_all
  note d = cli_try_directions[OF s]
  note c = calculateDamageCLI_try[OF gen]
  {
    assume "opt_moves o1 = []"
    then show "calculateDamageCLI eng host db options =
       (GetGeneration (or_int (in_generation options) 9) # NewPokemon (opt_name o1) #
        NewPokemon (opt_name o2) #
        fst (attack_direction None eng gen p2 p1 (opt_moves o2)
               (field21 (cli_fieldOptions (in_field options)) options)),
        Inr (case snd (attack_direction None eng gen p2 p1 (opt_moves o2)
                         (field21 (cli_fieldOptions (in_field options)) options)) of
               Inl error \<Rightarrow> ErrorLogged (message error)
             | Inr d21 \<Rightarrow>
                 Logged \<lparr> cli_pokemon1AttackingPokemon2 = no_moves_result eng p1 p2 None,
                          cli_pokemon2AttackingPokemon1 = d21 \<rparr>))"
      by (simp add: c d attack_direction_no_moves and_then_Inr and_then_return no_moves_result_def
          split: sum.split)
  }
  {
    assume "opt_moves o2 = []"
    then show "calculateDamageCLI eng host db options =
       (GetGeneration (or_int (in_generation options) 9) # NewPokemon (opt_name o1) #
        NewPokemon (opt_name o2) #
        fst (attack_direction None eng gen p1 p2 (opt_moves o1)
               (field12 (cli_fieldOptions (in_field options)) options)),
        Inr (case snd (attack_direction None eng gen p1 p2 (opt_moves o1)
                         (field12 (cli_fieldOptions (in_field options)) options)) of
               Inl error \<Rightarrow> ErrorLogged (message error)
             | Inr d12 \<Rightarrow>
                 Logged \<lparr> cli_pokemon1AttackingPokemon2 = d12,
                          cli_pokemon2AttackingPokemon1 = no_moves_result eng p2 p1 None \<rparr>))"
      by (simp add: c d attack_direction_no_moves and_then_Inr and_then_return no_moves_result_def
          split: sum.split)
  }
qed (simp_all add: no_moves_result_def)

theorem no_moves_direction_witness:
  "map_sum message (adr_message \<circ> pokemon2AttackingPokemon1)
     (snd (calculateDamage ex_engine ex_host ex_setdex (ex_input (Some [''Dragon Claw'']) None))) =
     Inr (Some ''Corviknight has no moves to calculate.'') \<and>
   map_sum message (adr_moves \<circ> pokemon2AttackingPokemon1)
     (snd (calculateDamage ex_engine ex_host ex_setdex (ex_input (Some [''Dragon Claw'']) None))) =
     Inr (Some []) \<and>
   fst (calculateDamage ex_engine ex_host ex_setdex (ex_input (Some [''Dragon Claw'']) None)) =
     [GetGeneration 9, NewPokemon (Some ''Garchomp''), NewPokemon (Some ''Corviknight''),
      NewField (field12 no_field (ex_input (Some [''Dragon Claw'']) None)),
      NewMove ''Dragon Claw'' False,
      Calculate 9 ''Garchomp'' ''Corviknight'' (''Dragon Claw'', False) (),
      NewMove ''Dragon Claw'' True,
      Calculate 9 ''Garchomp'' ''Corviknight'' (''Dragon Claw'', True) ()] \<and>
   map_sum message (map_option (adr_message \<circ> cli_pokemon2AttackingPokemon1) \<circ> logged)
     (snd (calculateDamageCLI ex_engine ex_host ex_setdex (ex_input (Some [''Dragon Claw'']) None))) =
     Inr (Some (Some ''Corviknight has no moves to calculate.''))"
proof -
  let ?m1 = "Some [''Dragon Claw'']"
  let ?in = "ex_input ?m1 None"
  let ?o1 = "base_options (ex_direct ''Garchomp'' ?m1)"
  let ?o2 = "base_options (ex_direct ''Corviknight'' None)"
  have names: "''Garchomp'' \<noteq> []" "''Corviknight'' \<noteq> []" by simp_all
  have pre:
    "getPokemonOptions ex_host ex_setdex (gen_num ex_engine 9) (in_pokemon1 ?in) = Inr ?o1 \<and>
     getPokemonOptions ex_host ex_setdex (gen_num ex_engine 9) (in_pokemon2 ?in) = Inr ?o2 \<and>
     new_Pokemon ex_engine 9 (opt_name ?o1) ?o1 = Inr ''Garchomp'' \<and>
     new_Pokemon ex_engine 9 (opt_name ?o2) ?o2 = Inr ''Corviknight''"
    by (simp add: ex_engine_setup ex_direct_options[OF names(1)] ex_direct_options[OF names(2)])
  have empty: "opt_moves ?o2 = []"
    by (simp add: ex_direct_options[OF names(2)] or_obj_def)
  have d12: "snd (attack_direction (Some []) ex_engine 9 ''Garchomp'' ''Corviknight'' (opt_moves ?o1)
      (field12 (or_obj (in_field ?in) no_field) ?in)) =
      Inr \<lparr> adr_message = None,
            adr_attacker = summary ex_engine ''Garchomp'',
            adr_defender = summary ex_engine ''Corviknight'',
            adr_moves = Some
              [\<lparr> mc_moveName = ''Dragon Claw'',
                 normalHit = \<lparr> damageRange = (68, 81),
                   percentageRange = (Num (169 / 10), Num (201 / 10)),
                   koChance = ''possible 5HKO'',
                   description = ''Garchomp Dragon Claw vs. Corviknight'' \<rparr>,
                 criticalHit = \<lparr> damageRange = (102, 121),
                   percentageRange = (Num (253 / 10), Num 30),
                   koChance = ''possible 5HKO'',
                   description = ''Garchomp Dragon Claw vs. Corviknight'' \<rparr> \<rparr>] \<rparr>"
    by code_simp
  from no_moves_direction[OF ex_engine_setup(1)[of ?m1 None],
      where host = ex_host and db = ex_setdex] pre empty
  have "calculateDamage ex_engine ex_host ex_setdex ?in =
          (GetGeneration (or_int (in_generation ?in) 9) # NewPokemon (opt_name ?o1) #
           NewPokemon (opt_name ?o2) #
           fst (attack_direction (Some []) ex_engine 9 ''Garchomp'' ''Corviknight'' (opt_moves ?o1)
                  (field12 (or_obj (in_field ?in) no_field) ?in)),
           map_sum id (\<lambda>d12.
               \<lparr> generation = gen_num ex_engine 9,
                 pokemon1 = summary ex_engine ''Garchomp'',
                 pokemon2 = summary ex_engine ''Corviknight'',
                 pokemon1AttackingPokemon2 = d12,
                 pokemon2AttackingPokemon1 =
                   no_moves_result ex_engine ''Corviknight'' ''Garchomp'' (Some []) \<rparr>)
             (snd (attack_direction (Some []) ex_engine 9 ''Garchomp'' ''Corviknight'' (opt_moves ?o1)
                     (field12 (or_obj (in_field ?in) no_field) ?in))))"
    by blast
  then have gql:
    "map_sum message (adr_message \<circ> pokemon2AttackingPokemon1)
       (snd (calculateDamage ex_engine ex_host ex_setdex ?in)) =
       Inr (Some ''Corviknight has no moves to calculate.'')"
    "map_sum message (adr_moves \<circ> pokemon2AttackingPokemon1)
       (snd (calculateDamage ex_engine ex_host ex_setdex ?in)) = Inr (Some [])"
    by (simp_all add: d12 no_moves_result_def ex_engine_sel)
  have calls: "fst (calculateDamage ex_engine ex_host ex_setdex ?in) =
     [GetGeneration 9, NewPokemon (Some ''Garchomp''), NewPokemon (Some ''Corviknight''),
      NewField (field12 no_field ?in),
      NewMove ''Dragon Claw'' False,
      Calculate 9 ''Garchomp'' ''Corviknight'' (''Dragon Claw'', False) (),
      NewMove ''Dragon Claw'' True,
      Calculate 9 ''Garchomp'' ''Corviknight'' (''Dragon Claw'', True) ()]"
    by code_simp
  have cli: "map_sum message (map_option (adr_message \<circ> cli_pokemon2AttackingPokemon1) \<circ> logged)
     (snd (calculateDamageCLI ex_engine ex_host ex_setdex ?in)) =
     Inr (Some (Some ''Corviknight has no moves to calculate.''))"
    by code_simp
  from gql calls cli show ?thesis by simp
qed

text \<open>Claim C5 as written fails for \<^verbatim>\<open>cli_calc.js\<close>: the result has no move list.\<close>

theorem no_moves_direction_counterexample:
  "map_sum message (map_option (adr_moves \<circ> cli_pokemon2AttackingPokemon1) \<circ> logged)
     (snd (calculateDamageCLI ex_engine ex_host ex_setdex (ex_input (Some [''Dragon Claw'']) None))) =
     Inr (Some None)"
  by code_simp

end
